theory Spec2Isabelle
  imports Complex_Main "HOL-Library.AList"
begin

section \<open>Data model of the API client (types.ts)\<close>

datatype ResourceStatus = VIRTUAL | MATERIALIZED | PROVISIONING | FAILED

text \<open>
  \<open>TaskStatus\<close> is the union of the four literals "pending", "processing", "completed"
  and "failed". A task record arrives as JSON and is cast without a check, so at run time
  the field is any string; it is a \<open>string\<close> here, as \<open>mapTaskStatus\<close> takes it.
\<close>

type_synonym TaskStatus = string

record ApiErrorShape =
  message :: string
  code :: "string option"
  http_status :: "nat option"
  requestId :: "string option"

datatype ApiSource = Mock | Backend

record ApiMeta =
  source :: ApiSource
  warning :: "string option"

record 'a ApiResult =
  ok :: bool
  data :: "'a option"
  error :: "ApiErrorShape option"
  meta :: "ApiMeta option"

record LinkItem =
  id :: string
  title :: string
  shareUrl :: string
  quality :: "string option"
  size :: "string option"
  matchScore :: "rat option"

record QuarkSearchParams =
  search_tmdbId :: "string option"
  query :: "string option"

record BackendResourceItem =
  item_id :: "string option"
  messageId :: "string option"
  item_title :: "string option"
  content :: "string option"
  cloudLinks :: "string list option"

record BackendResourceGroup =
  group_id :: string
  list :: "BackendResourceItem list"

record BackendResourceSearchResponse =
  search_data :: "BackendResourceGroup list"

text \<open>
  \<open>TaskRecord\<close>. The declared type has \<open>taskId: string\<close>, but \<open>triggerJitProvision\<close>
  tests \<open>!data.taskId\<close> on the decoded response: the field can be absent at run time, so
  it is optional here (\<open>None\<close>: absent from the response).
\<close>

record TaskRecord =
  taskId :: "string option"
  status :: TaskStatus
  tmdbId :: string
  linkId :: "string option"
  updatedAt :: string
  progress :: "nat option"
  resultWebdavUrl :: "string option"
  errorMessage :: "string option"

record SavedLink =
  resource_status :: ResourceStatus
  savedAt :: string

record SaveVirtualLinkParams =
  save_tmdbId :: string
  save_linkId :: string
  save_title :: string
  save_shareUrl :: string

record TriggerJitProvisionParams =
  jit_tmdbId :: string
  jit_linkId :: string
  jit_shareUrl :: "string option"

record RetryOptions =
  retries :: int
  backoffMs :: int

section \<open>Strings of numbers, truthiness\<close>

text \<open>A template literal writes a non-negative integer in decimal.\<close>

definition digit_char :: "nat \<Rightarrow> char" where
  "digit_char d = ''0123456789'' ! d"

function show_nat :: "nat \<Rightarrow> string" where
  "show_nat n = (if n < 10 then [digit_char n] else show_nat (n div 10) @ [digit_char (n mod 10)])"
  by pat_completeness auto
termination
  by (relation "measure (\<lambda>n. n)") auto

declare show_nat.simps [simp del]

text \<open>\<open>a || b\<close> on an optional string: \<open>undefined\<close> and the empty string are falsy.\<close>

definition truthy :: "string option \<Rightarrow> bool" where
  "truthy s = (case s of None \<Rightarrow> False | Some v \<Rightarrow> v \<noteq> [])"

definition or_opt :: "string option \<Rightarrow> string option \<Rightarrow> string option" where
  "or_opt a b = (if truthy a then a else b)"

definition or_else :: "string option \<Rightarrow> string \<Rightarrow> string" where
  "or_else s d = (case s of None \<Rightarrow> d | Some v \<Rightarrow> if v = [] then d else v)"

section \<open>Module configuration (client.ts)\<close>

text \<open>
  The module constants are computed once from the environment variable
  (\<open>NEXT_PUBLIC_API_BASE || API_BASE || ""\<close>), here the parameter \<open>raw\<close>.
  \<open>raw.replace(/\/$/, "")\<close> drops one trailing slash.
\<close>

definition baseUrl :: "string \<Rightarrow> string" where
  "baseUrl raw = (if raw \<noteq> [] \<and> last raw = CHR ''/'' then butlast raw else raw)"

definition useMock :: "string \<Rightarrow> bool" where
  "useMock raw = (length (baseUrl raw) = 0 \<or> baseUrl raw = ''mock'')"

definition endsWith :: "string \<Rightarrow> string \<Rightarrow> bool" where
  "endsWith s suffix = (length suffix \<le> length s \<and> drop (length s - length suffix) s = suffix)"

definition apiBaseUrl :: "string \<Rightarrow> string" where
  "apiBaseUrl raw =
     (if useMock raw then ''''
      else if endsWith (baseUrl raw) ''/api/v1'' then baseUrl raw
      else baseUrl raw @ ''/api/v1'')"

definition DEFAULT_TIMEOUT_MS :: nat where
  "DEFAULT_TIMEOUT_MS = 10000"

definition DEFAULT_RETRY :: RetryOptions where
  "DEFAULT_RETRY = \<lparr>retries = 1, backoffMs = 500\<rparr>"

definition buildMockWarning :: "string \<Rightarrow> string \<Rightarrow> string" where
  "buildMockWarning raw action =
     (if useMock raw then ''API_BASE not configured; using mock for '' @ action @ ''.''
      else ''Mock in use for '' @ action @ ''.'')"

section \<open>Thrown values and the network\<close>

text \<open>
  What a \<open>throw\<close> carries: an \<open>ApiError\<close> (message, status, payload, requestId), made only
  by this module, or any other value (a \<open>TypeError\<close> of \<open>fetch\<close>, the \<open>AbortError\<close> of the
  timeout, a \<open>SyntaxError\<close> of \<open>response.json()\<close>), kept as its description.
\<close>

datatype 'a Payload = NoPayload | JsonPayload 'a | TextPayload string

datatype 'a Thrown =
    ApiError string nat "'a Payload" "string option"
  | OtherError string

text \<open>
  The answer of the network to one \<open>fetchWithTimeout\<close>: the promise rejects (network
  failure, or the abort at \<open>timeoutMs\<close>), or it resolves to a response. Of a response the
  code reads \<open>ok\<close>, \<open>status\<close>, the header \<open>x-request-id\<close>, \<open>json()\<close> and \<open>text()\<close>; the last
  two can throw (\<open>Inl\<close>). The body decodes to a value of type \<open>'a\<close>; the cast \<open>as T\<close> checks
  nothing.
\<close>

record 'a Response =
  resp_ok :: bool
  resp_status :: nat
  x_request_id :: "string option"
  json :: "string + 'a"
  text_body :: "string + string"

datatype 'a FetchOutcome = FetchRejects string | FetchResolves "'a Response"

datatype Event = Fetch string nat | Sleep int

section \<open>requestJson\<close>

text \<open>
  The body of the \<open>try\<close> block for one attempt: \<open>Inl\<close> is what it throws, \<open>Inr\<close> what it
  returns.
\<close>

definition attempt_once :: "'a FetchOutcome \<Rightarrow> 'a Thrown + 'a" where
  "attempt_once out =
     (case out of
        FetchRejects why \<Rightarrow> Inl (OtherError why)
      | FetchResolves response \<Rightarrow>
          if \<not> resp_ok response then
            (case json response of
               Inr p \<Rightarrow>
                 Inl (ApiError (''Request failed with status '' @ show_nat (resp_status response))
                        (resp_status response) (JsonPayload p) (x_request_id response))
             | Inl _ \<Rightarrow>
                 (case text_body response of
                    Inr t \<Rightarrow>
                      Inl (ApiError (''Request failed with status '' @ show_nat (resp_status response))
                             (resp_status response) (TextPayload t) (x_request_id response))
                  | Inl why \<Rightarrow> Inl (OtherError why)))
          else
            (case json response of
               Inr v \<Rightarrow> Inr v
             | Inl why \<Rightarrow> Inl (OtherError why)))"

text \<open>
  The loop \<open>for (attempt = 0; attempt <= retry.retries; attempt += 1)\<close>. \<open>net attempt\<close> is
  the network's answer to the fetch of that attempt. The result is paired with the fetches
  and sleeps performed, in order.
\<close>

function requestJson_loop ::
  "RetryOptions \<Rightarrow> string \<Rightarrow> (nat \<Rightarrow> 'a FetchOutcome) \<Rightarrow> nat \<Rightarrow> ('a Thrown + 'a) \<times> Event list"
where
  "requestJson_loop retry url net attempt =
     (if int attempt \<le> retries retry then
        (case attempt_once (net attempt) of
           Inr v \<Rightarrow> (Inr v, [Fetch url attempt])
         | Inl err \<Rightarrow>
             if int attempt \<ge> retries retry then (Inl err, [Fetch url attempt])
             else
               (let (r, evs) = requestJson_loop retry url net (attempt + 1)
                in (r, Fetch url attempt # Sleep (backoffMs retry * (int attempt + 1)) # evs)))
      else (Inl (ApiError ''Request failed'' 500 NoPayload None), []))"
  by pat_completeness auto
termination
  by (relation "measure (\<lambda>(retry, url, net, attempt). nat (retries retry + 1 - int attempt))") auto

declare requestJson_loop.simps [simp del]

text \<open>
  \<open>requestJson(path, options)\<close>. \<open>resolve_retry\<close> is \<open>options.retry ?? DEFAULT_RETRY\<close>. The
  query string is not part of the recorded url.
\<close>

definition resolve_retry :: "RetryOptions option \<Rightarrow> RetryOptions" where
  "resolve_retry retry_opt = (case retry_opt of None \<Rightarrow> DEFAULT_RETRY | Some r \<Rightarrow> r)"

definition requestJson ::
  "string \<Rightarrow> string \<Rightarrow> RetryOptions option \<Rightarrow> (nat \<Rightarrow> 'a FetchOutcome) \<Rightarrow> ('a Thrown + 'a) \<times> Event list"
where
  "requestJson raw path retry_opt net =
     requestJson_loop (resolve_retry retry_opt) (apiBaseUrl raw @ path) net 0"

text \<open>
  The events the retry policy is said to produce when attempts \<open>a, ..., n - 1\<close> fail and
  attempt \<open>n\<close> ends the call: each failed attempt is followed by a wait of
  \<open>backoffMs * (attempt + 1)\<close> milliseconds.
\<close>

definition backoff_events :: "RetryOptions \<Rightarrow> string \<Rightarrow> nat \<Rightarrow> nat \<Rightarrow> Event list" where
  "backoff_events retry url a n =
     concat (map (\<lambda>i. [Fetch url i, Sleep (backoffMs retry * (int i + 1))]) [a..<n]) @ [Fetch url n]"

fun is_Fetch :: "Event \<Rightarrow> bool" where
  "is_Fetch (Fetch _ _) = True"
| "is_Fetch (Sleep _) = False"

definition fetch_count :: "Event list \<Rightarrow> nat" where
  "fetch_count evs = length (filter is_Fetch evs)"


definition unauthorized_text :: "'a Response" where
  "unauthorized_text = \<lparr>resp_ok = False, resp_status = 401, x_request_id = None,
                         json = Inl ''SyntaxError'', text_body = Inl ''TypeError''\<rparr>"



section \<open>The public wrappers (client.ts)\<close>

text \<open>\<open>ok(data, meta)\<close> and \<open>fail(message, status, code, requestId)\<close>.\<close>

definition okResult :: "'a \<Rightarrow> ApiMeta option \<Rightarrow> 'a ApiResult" where
  "okResult d m = \<lparr>ok = True, data = Some d, error = None, meta = m\<rparr>"

definition failResult ::
  "string \<Rightarrow> nat option \<Rightarrow> string option \<Rightarrow> string option \<Rightarrow> 'a ApiResult" where
  "failResult msg st cd rid =
     \<lparr>ok = False, data = None,
      error = Some \<lparr>message = msg, code = cd, http_status = st, requestId = rid\<rparr>,
      meta = None\<rparr>"

text \<open>
  What a call reads from its environment besides the network: \<open>Date.now()\<close>,
  \<open>Math.random().toString(36).slice(2, 7)\<close> and \<open>new Date().toISOString()\<close>.
\<close>

record Clock =
  now_ms :: nat
  random36 :: string
  iso_now :: string

text \<open>
  An async function resolves (\<open>Inr\<close>) or rejects (\<open>Inl\<close>). Each wrapper returns that
  outcome with the events of its request; \<open>triggerJitProvision\<close> also returns the module's
  \<open>mockTasks\<close> map, which it writes.
\<close>

definition saveVirtualLink ::
  "string \<Rightarrow> Clock \<Rightarrow> (nat \<Rightarrow> SavedLink FetchOutcome) \<Rightarrow> SaveVirtualLinkParams
     \<Rightarrow> (SavedLink Thrown + SavedLink ApiResult) \<times> Event list"
where
  "saveVirtualLink raw clk net params =
     (if useMock raw then
        (Inr (okResult \<lparr>resource_status = VIRTUAL, savedAt = iso_now clk\<rparr>
                (Some \<lparr>source = Mock, warning = Some (buildMockWarning raw ''saveVirtualLink'')\<rparr>)),
         [])
      else
        (case requestJson raw (''/media/'' @ save_tmdbId params @ ''/links/virtual'') None net of
           (Inr d, evs) \<Rightarrow> (Inr (okResult d (Some \<lparr>source = Backend, warning = None\<rparr>)), evs)
         | (Inl err, evs) \<Rightarrow>
             (case err of
                ApiError msg st _ rid \<Rightarrow> (Inr (failResult msg (Some st) None rid), evs)
              | OtherError _ \<Rightarrow> (Inr (failResult ''Failed to save virtual link'' None None None), evs))))"

definition mockTaskId :: "Clock \<Rightarrow> string" where
  "mockTaskId clk = ''task_'' @ show_nat (now_ms clk) @ ''_'' @ random36 clk"

definition triggerJitProvision ::
  "string \<Rightarrow> Clock \<Rightarrow> (nat \<Rightarrow> TaskRecord FetchOutcome) \<Rightarrow> TriggerJitProvisionParams
     \<Rightarrow> (string \<rightharpoonup> TaskRecord)
     \<Rightarrow> (TaskRecord Thrown + TaskRecord ApiResult) \<times> (string \<rightharpoonup> TaskRecord) \<times> Event list"
where
  "triggerJitProvision raw clk net params mockTasks =
     (if useMock raw then
        (let task_id = mockTaskId clk;
             record = \<lparr>taskId = Some task_id, status = ''processing'',
                       tmdbId = jit_tmdbId params, linkId = Some (jit_linkId params),
                       updatedAt = iso_now clk, progress = None, resultWebdavUrl = None,
                       errorMessage = None\<rparr>
         in (Inr (okResult record
                    (Some \<lparr>source = Mock,
                           warning = Some (buildMockWarning raw ''triggerJitProvision'')\<rparr>)),
             mockTasks(task_id \<mapsto> record), []))
      else
        (case requestJson raw (''/media/'' @ jit_tmdbId params @ ''/provision'') None net of
           (r, evs) \<Rightarrow>
             (let body =
                (case r of
                   Inl err \<Rightarrow> Inl err
                 | Inr d \<Rightarrow>
                     if \<not> truthy (taskId d)
                     then Inl (ApiError ''Missing taskId in response'' 500 (JsonPayload d) None)
                     else Inr (okResult d (Some \<lparr>source = Backend, warning = None\<rparr>)))
              in (case body of
                    Inr res \<Rightarrow> (Inr res, mockTasks, evs)
                  | Inl err \<Rightarrow>
                      (case err of
                         ApiError msg st _ rid \<Rightarrow>
                           (Inr (failResult msg (Some st) None rid), mockTasks, evs)
                       | OtherError _ \<Rightarrow>
                           (Inr (failResult ''Failed to trigger JIT provisioning'' None None None),
                            mockTasks, evs))))))"

definition getTaskStatus ::
  "string \<Rightarrow> (nat \<Rightarrow> TaskRecord FetchOutcome) \<Rightarrow> string \<Rightarrow> (string \<rightharpoonup> TaskRecord)
     \<Rightarrow> (TaskRecord Thrown + TaskRecord ApiResult) \<times> Event list"
where
  "getTaskStatus raw net task_id mockTasks =
     (if useMock raw then
        (case mockTasks task_id of
           None \<Rightarrow> (Inr (failResult ''Task not found'' (Some 404) (Some ''TASK_NOT_FOUND'') None), [])
         | Some record \<Rightarrow> (Inr (okResult record (Some \<lparr>source = Mock, warning = None\<rparr>)), []))
      else
        (case requestJson raw (''/tasks/'' @ task_id) None net of
           (Inr d, evs) \<Rightarrow> (Inr (okResult d (Some \<lparr>source = Backend, warning = None\<rparr>)), evs)
         | (Inl err, evs) \<Rightarrow>
             (case err of
                ApiError msg st _ rid \<Rightarrow> (Inr (failResult msg (Some st) None rid), evs)
              | OtherError _ \<Rightarrow> (Inr (failResult ''Failed to fetch task status'' None None None), evs))))"

section \<open>searchQuarkLinks\<close>

text \<open>
  \<open>getMockQuarkLinks\<close> (mock.ts). The table \<open>mockQuarkLinks\<close> is a parameter.
\<close>

definition getMockQuarkLinks ::
  "(string \<rightharpoonup> LinkItem list) \<Rightarrow> string option \<Rightarrow> string option \<Rightarrow> LinkItem list" where
  "getMockQuarkLinks mockQuarkLinks tmdb_id q =
     (case (if truthy tmdb_id then mockQuarkLinks (the tmdb_id) else None) of
        Some links \<Rightarrow> links
      | None \<Rightarrow>
          if truthy q then
            [\<lparr>id = ''q-search-1'', title = ''Search result for '' @ the q,
              shareUrl = ''https://pan.quark.cn/s/search-placeholder'',
              quality = Some ''1080p'', size = Some ''5.9 GB'', matchScore = Some (71 / 100)\<rparr>]
          else [])"

text \<open>
  The three nested \<open>forEach\<close> loops, innermost first. Each carries the index of the
  callback and the array \<open>links\<close> that \<open>push\<close> extends.
\<close>

fun forEach_link :: "string \<Rightarrow> string \<Rightarrow> string list \<Rightarrow> nat \<Rightarrow> LinkItem list \<Rightarrow> LinkItem list" where
  "forEach_link baseId ttl [] linkIndex links = links"
| "forEach_link baseId ttl (link # rest) linkIndex links =
     forEach_link baseId ttl rest (Suc linkIndex)
       (links @ [\<lparr>id = baseId @ ''-'' @ show_nat linkIndex, title = ttl, shareUrl = link,
                  quality = None, size = None, matchScore = None\<rparr>])"

fun forEach_item :: "string \<Rightarrow> BackendResourceItem list \<Rightarrow> nat \<Rightarrow> LinkItem list \<Rightarrow> LinkItem list" where
  "forEach_item gid [] itemIndex links = links"
| "forEach_item gid (item # rest) itemIndex links =
     (let ttl = or_else (or_opt (item_title item) (content item)) ''Untitled'';
          baseId = or_else (or_opt (item_id item) (messageId item)) (gid @ ''-'' @ show_nat itemIndex)
      in forEach_item gid rest (Suc itemIndex)
           (forEach_link baseId ttl (case cloudLinks item of None \<Rightarrow> [] | Some ls \<Rightarrow> ls) 0 links))"

fun forEach_group :: "BackendResourceGroup list \<Rightarrow> LinkItem list \<Rightarrow> LinkItem list" where
  "forEach_group [] links = links"
| "forEach_group (g # rest) links = forEach_group rest (forEach_item (group_id g) (list g) 0 links)"

text \<open>\<open>params.query ?? params.tmdbId ?? ""\<close>: only an absent value falls through.\<close>

definition search_keyword :: "QuarkSearchParams \<Rightarrow> string" where
  "search_keyword params =
     (case query params of
        Some q \<Rightarrow> q
      | None \<Rightarrow> (case search_tmdbId params of Some t \<Rightarrow> t | None \<Rightarrow> ''''))"

definition searchQuarkLinks ::
  "string \<Rightarrow> (string \<rightharpoonup> LinkItem list) \<Rightarrow> (nat \<Rightarrow> BackendResourceSearchResponse FetchOutcome)
     \<Rightarrow> QuarkSearchParams
     \<Rightarrow> (BackendResourceSearchResponse Thrown + LinkItem list) \<times> Event list"
where
  "searchQuarkLinks raw mockQuarkLinks net params =
     (if useMock raw then
        (Inr (getMockQuarkLinks mockQuarkLinks (search_tmdbId params) (query params)), [])
      else
        (let keyword = search_keyword params
         in if keyword = [] then (Inr [], [])
            else
              (case requestJson raw ''/resources/search'' None net of
                 (Inl err, evs) \<Rightarrow> (Inl err, evs)
               | (Inr response, evs) \<Rightarrow> (Inr (forEach_group (search_data response) []), evs))))"

text \<open>
  The flattening as the specification words it: one link item per element of each item's
  \<open>cloudLinks\<close>, in group, item and link order.
\<close>

definition link_title :: "BackendResourceItem \<Rightarrow> string" where
  "link_title item =
     (case item_title item of
        Some t \<Rightarrow> if t \<noteq> [] then t
                  else (case content item of Some c \<Rightarrow> if c \<noteq> [] then c else ''Untitled''
                        | None \<Rightarrow> ''Untitled'')
      | None \<Rightarrow> (case content item of Some c \<Rightarrow> if c \<noteq> [] then c else ''Untitled''
                 | None \<Rightarrow> ''Untitled''))"

definition link_base_id :: "string \<Rightarrow> nat \<Rightarrow> BackendResourceItem \<Rightarrow> string" where
  "link_base_id gid itemIndex item =
     (if truthy (item_id item) then the (item_id item)
      else if truthy (messageId item) then the (messageId item)
      else gid @ ''-'' @ show_nat itemIndex)"

definition item_links :: "string \<Rightarrow> nat \<times> BackendResourceItem \<Rightarrow> LinkItem list" where
  "item_links gid p =
     map (\<lambda>(linkIndex, link).
            \<lparr>id = link_base_id gid (fst p) (snd p) @ ''-'' @ show_nat linkIndex,
             title = link_title (snd p), shareUrl = link,
             quality = None, size = None, matchScore = None\<rparr>)
         (enumerate 0 (case cloudLinks (snd p) of None \<Rightarrow> [] | Some ls \<Rightarrow> ls))"

definition flatten_links :: "BackendResourceGroup list \<Rightarrow> LinkItem list" where
  "flatten_links gs =
     concat (map (\<lambda>g. concat (map (item_links (group_id g)) (enumerate 0 (list g)))) gs)"

definition cloud_link_count :: "BackendResourceGroup list \<Rightarrow> nat" where
  "cloud_link_count gs =
     sum_list (map (\<lambda>g. sum_list (map (\<lambda>item. case cloudLinks item of None \<Rightarrow> 0
                                                  | Some ls \<Rightarrow> length ls) (list g))) gs)"

section \<open>The detail page (movie/[tmdbId]/page.tsx)\<close>

definition mapTaskStatus :: "string \<Rightarrow> ResourceStatus" where
  "mapTaskStatus s =
     (if s = ''pending'' \<or> s = ''processing'' then PROVISIONING
      else if s = ''completed'' then MATERIALIZED
      else if s = ''failed'' then FAILED
      else PROVISIONING)"

datatype NoticeType = NoticeSuccess | NoticeError | NoticeInfo

record Notice =
  notice_type :: NoticeType
  notice_message :: string

text \<open>
  The page state the poll effect reads and writes. \<open>activeTasks\<close> is an object from
  taskId to \<open>{linkId}\<close>; it is the list of its entries in the order \<open>Object.keys\<close>
  enumerates them.
\<close>

record PageState =
  notice :: "Notice option"
  linkStatus :: "string \<rightharpoonup> ResourceStatus"
  activeTasks :: "(string \<times> string) list"

text \<open>
  The locals of \<open>pollTasks\<close>, with the notices passed to \<open>setNoticeWithTimeout\<close> in call
  order and the number of calls of \<open>mutate\<close>.
\<close>

record PollLocals =
  updates :: "(string \<times> ResourceStatus) list"
  tasksChanged :: bool
  nextTasks :: "(string \<times> string) list"
  notices :: "Notice list"
  mutate_calls :: nat


text \<open>The callback of \<open>results.forEach\<close>.\<close>

definition pollResult ::
  "bool \<Rightarrow> (string \<times> string) list \<Rightarrow> string \<times> TaskRecord ApiResult \<Rightarrow> PollLocals \<Rightarrow> PollLocals"
where
  "pollResult mock_mode active entry acc =
     (let task_id = fst entry; result = snd entry; link_id = map_of active task_id
      in if \<not> truthy link_id then
           acc\<lparr>nextTasks := AList.delete task_id (nextTasks acc), tasksChanged := True\<rparr>
         else if \<not> ok result \<or> data result = None then
           acc\<lparr>updates := AList.update (the link_id) FAILED (updates acc),
               nextTasks := AList.delete task_id (nextTasks acc),
               tasksChanged := True,
               notices := notices acc @
                 [\<lparr>notice_type = NoticeError,
                   notice_message =
                     or_else (map_option message (error result)) ''Task status unavailable.''\<rparr>]\<rparr>
         else
           (let d = the (data result);
                acc1 = acc\<lparr>updates := AList.update (the link_id) (mapTaskStatus (status d)) (updates acc)\<rparr>
            in if status d = ''completed'' then
                 acc1\<lparr>nextTasks := AList.delete task_id (nextTasks acc1),
                      tasksChanged := True,
                      mutate_calls := (if \<not> mock_mode then mutate_calls acc1 + 1 else mutate_calls acc1),
                      notices := notices acc1 @
                        [\<lparr>notice_type = NoticeSuccess, notice_message = ''Provisioning completed.''\<rparr>]\<rparr>
               else if status d = ''failed'' then
                 acc1\<lparr>nextTasks := AList.delete task_id (nextTasks acc1),
                      tasksChanged := True,
                      notices := notices acc1 @
                        [\<lparr>notice_type = NoticeError,
                          notice_message = or_else (errorMessage d) ''Provisioning failed.''\<rparr>]\<rparr>
               else acc1))"

text \<open>
  One call of \<open>pollTasks\<close>. \<open>active\<close> is the \<open>activeTasks\<close> in the closure of the effect
  instance that made the call; \<open>fetchStatus\<close> is what \<open>getTaskStatus\<close> resolved to for each
  task id of \<open>Promise.all\<close>; \<open>cancelled\<close> is the flag of that effect instance, read once the
  results are there; \<open>st\<close> is the page state at that moment. The result is the page state
  after the state setters, with the locals.
\<close>

definition pollTasks ::
  "bool \<Rightarrow> (string \<times> string) list \<Rightarrow> (string \<Rightarrow> TaskRecord ApiResult) \<Rightarrow> bool \<Rightarrow> PageState
     \<Rightarrow> PageState \<times> PollLocals"
where
  "pollTasks mock_mode active fetchStatus cancelled st =
     (let start = \<lparr>updates = [], tasksChanged = False, nextTasks = active,
                   notices = [], mutate_calls = 0\<rparr>;
          taskIds = map fst active;
          results = map (\<lambda>task_id. (task_id, fetchStatus task_id)) taskIds
      in if cancelled then (st, start)
         else
           (let acc = fold (pollResult mock_mode active) results start
            in (st\<lparr>notice := (if notices acc = [] then notice st else Some (last (notices acc))),
                   linkStatus := (if updates acc \<noteq> [] then linkStatus st ++ map_of (updates acc)
                                  else linkStatus st),
                   activeTasks := (if tasksChanged acc then nextTasks acc else activeTasks st)\<rparr>,
                acc)))"

subsection \<open>The effect: instances, the interval, polls in flight\<close>

text \<open>
  The effect depends on \<open>activeTasks\<close>: each \<open>setActiveTasks\<close> cleans the live effect
  instance up (its \<open>cancelled\<close> becomes true, its interval is cleared) and runs a new one.
  Instances are numbered; \<open>effect_no\<close> is the live one, so a poll of an earlier instance
  finds \<open>cancelled\<close> true. \<open>interval_due\<close> is the time in milliseconds at which the
  interval of the live instance fires next (\<open>None\<close>: the instance installed no interval);
  timers are taken to fire on time.
  \<open>in_flight\<close> are the calls of \<open>pollTasks\<close> that wait for their results, each with the
  number and the \<open>activeTasks\<close> of the instance that made it: \<open>setInterval\<close> does not wait
  for the previous call to finish, so several can wait at once.
\<close>

record Poll =
  poll_effect :: nat
  poll_tasks :: "(string \<times> string) list"

record Page =
  page_state :: PageState
  effect_no :: nat
  interval_due :: "nat option"
  in_flight :: "Poll list"


datatype PollStart = PollStarted nat "string list"


text \<open>\<open>pollTasks()\<close> up to its \<open>await\<close>: the requests go out.\<close>

definition start_poll :: "nat \<Rightarrow> Page \<Rightarrow> Page \<times> PollStart list" where
  "start_poll now pg =
     (pg\<lparr>in_flight := in_flight pg @
            [\<lparr>poll_effect = effect_no pg, poll_tasks = activeTasks (page_state pg)\<rparr>]\<rparr>,
      [PollStarted now (map fst (activeTasks (page_state pg)))])"




text \<open>
  A page as the effect leaves it: every poll in flight belongs to the live instance or to
  an earlier one, and those of the live instance have the current \<open>activeTasks\<close> in their
  closure.
\<close>

definition consistent :: "Page \<Rightarrow> bool" where
  "consistent pg =
     list_all (\<lambda>poll. poll_effect poll \<le> effect_no pg
                 \<and> (poll_effect poll < effect_no pg \<or> poll_tasks poll = activeTasks (page_state pg)))
       (in_flight pg)"

subsection \<open>The poll step in the words of the properties\<close>



text \<open>
  What a task with a link contributes to the page: the status written for its link, and
  the notice passed to \<open>setNoticeWithTimeout\<close>, if any.
\<close>

definition fetch_failed :: "TaskRecord ApiResult \<Rightarrow> bool" where
  "fetch_failed r = (\<not> ok r \<or> data r = None)"

definition written_status :: "TaskRecord ApiResult \<Rightarrow> ResourceStatus" where
  "written_status r =
     (case data r of
        None \<Rightarrow> FAILED
      | Some d \<Rightarrow> if \<not> ok r then FAILED else mapTaskStatus (status d))"

definition passed_notice :: "TaskRecord ApiResult \<Rightarrow> Notice option" where
  "passed_notice r =
     (case data r of
        None \<Rightarrow>
          Some \<lparr>notice_type = NoticeError,
                notice_message = or_else (map_option message (error r)) ''Task status unavailable.''\<rparr>
      | Some d \<Rightarrow>
          if \<not> ok r then
            Some \<lparr>notice_type = NoticeError,
                  notice_message = or_else (map_option message (error r)) ''Task status unavailable.''\<rparr>
          else if status d = ''completed'' then
            Some \<lparr>notice_type = NoticeSuccess, notice_message = ''Provisioning completed.''\<rparr>
          else if status d = ''failed'' then
            Some \<lparr>notice_type = NoticeError,
                  notice_message = or_else (errorMessage d) ''Provisioning failed.''\<rparr>
          else None)"

text \<open>
  The tasks of a poll that have a link, in the order of \<open>Object.keys\<close>; the notices they
  pass, in that order; the tasks of one link, in that order.
\<close>

definition linked_tasks :: "(string \<times> string) list \<Rightarrow> string list" where
  "linked_tasks active = filter (\<lambda>task_id. truthy (map_of active task_id)) (map fst active)"

definition poll_notices ::
  "(string \<times> string) list \<Rightarrow> (string \<Rightarrow> TaskRecord ApiResult) \<Rightarrow> Notice list" where
  "poll_notices active fetchStatus =
     concat (map (\<lambda>task_id. case passed_notice (fetchStatus task_id) of
                               None \<Rightarrow> [] | Some n \<Rightarrow> [n])
               (linked_tasks active))"

definition tasks_of_link :: "(string \<times> string) list \<Rightarrow> string \<Rightarrow> string list" where
  "tasks_of_link active link_id =
     filter (\<lambda>task_id. map_of active task_id = Some link_id) (linked_tasks active)"

section \<open>Predicates and concrete inputs of the properties\<close>

text \<open>A result that reports a failure: \<open>ok\<close> is false and the error message is not empty.\<close>

definition is_failure :: "'a ApiResult \<Rightarrow> bool" where
  "is_failure r = (\<not> ok r \<and> (case error r of None \<Rightarrow> False | Some e \<Rightarrow> message e \<noteq> []))"

text \<open>Task records, responses, clocks and parameters used as concrete inputs.\<close>

definition task_without_id :: TaskRecord where
  "task_without_id = \<lparr>taskId = None, status = ''pending'', tmdbId = ''603'', linkId = Some ''q1'',
                       updatedAt = ''2026-01-01T00:00:00.000Z'', progress = None,
                       resultWebdavUrl = None, errorMessage = None\<rparr>"

definition json_response :: "'a \<Rightarrow> 'a Response" where
  "json_response v = \<lparr>resp_ok = True, resp_status = 200, x_request_id = None,
                        json = Inr v, text_body = Inl ''body used''\<rparr>"

definition sample_clock :: Clock where
  "sample_clock = \<lparr>now_ms = 1000, random36 = ''abcde'', iso_now = ''2026-01-01T00:00:00.000Z''\<rparr>"

definition sample_jit :: TriggerJitProvisionParams where
  "sample_jit = \<lparr>jit_tmdbId = ''603'', jit_linkId = ''q1'', jit_shareUrl = None\<rparr>"

definition sample_save :: SaveVirtualLinkParams where
  "sample_save = \<lparr>save_tmdbId = ''603'', save_linkId = ''q1'', save_title = ''The Matrix'',
                   save_shareUrl = ''https://pan.quark.cn/s/abc''\<rparr>"

definition task_with_id :: TaskRecord where
  "task_with_id = task_without_id\<lparr>taskId := Some ''t1''\<rparr>"


text \<open>Two successive calls of \<open>triggerJitProvision\<close> with the same parameters.\<close>

definition provision_twice ::
  "string \<Rightarrow> Clock \<Rightarrow> Clock \<Rightarrow> (nat \<Rightarrow> TaskRecord FetchOutcome) \<Rightarrow> TriggerJitProvisionParams
     \<Rightarrow> (string \<rightharpoonup> TaskRecord)
     \<Rightarrow> (TaskRecord Thrown + TaskRecord ApiResult) \<times> (TaskRecord Thrown + TaskRecord ApiResult)
         \<times> (string \<rightharpoonup> TaskRecord)"
where
  "provision_twice raw clk1 clk2 net params mockTasks =
     (case triggerJitProvision raw clk1 net params mockTasks of
        (r1, tasks1, _) \<Rightarrow>
          (case triggerJitProvision raw clk2 net params tasks1 of
             (r2, tasks2, _) \<Rightarrow> (r1, r2, tasks2)))"

text \<open>The \<open>taskId\<close> a call resolved to, if it resolved to a record that has one.\<close>

definition result_taskId :: "TaskRecord Thrown + TaskRecord ApiResult \<Rightarrow> string option" where
  "result_taskId r =
     (case r of
        Inl _ \<Rightarrow> None
      | Inr res \<Rightarrow> (case data res of None \<Rightarrow> None | Some d \<Rightarrow> taskId d))"

definition later_clock :: Clock where
  "later_clock = \<lparr>now_ms = 1001, random36 = ''fghij'', iso_now = ''2026-01-01T00:00:01.000Z''\<rparr>"

definition offline :: "nat \<Rightarrow> TaskRecord FetchOutcome" where
  "offline attempt = FetchRejects ''offline''"

definition sample_search :: BackendResourceSearchResponse where
  "sample_search =
     \<lparr>search_data =
        [\<lparr>group_id = ''g1'',
          list = [\<lparr>item_id = Some ''a'', messageId = None, item_title = Some ''Alpha'',
                   content = Some ''ignored'', cloudLinks = Some [''u0'', ''u1'']\<rparr>,
                  \<lparr>item_id = None, messageId = Some '''', item_title = Some '''',
                   content = None, cloudLinks = None\<rparr>,
                  \<lparr>item_id = None, messageId = None, item_title = None,
                   content = Some ''Beta'', cloudLinks = Some [''u2'']\<rparr>]\<rparr>,
         \<lparr>group_id = ''g2'',
          list = [\<lparr>item_id = Some '''', messageId = Some ''m7'', item_title = None,
                   content = None, cloudLinks = Some [''u3'']\<rparr>]\<rparr>]\<rparr>"

definition bare_link :: "string \<Rightarrow> string \<Rightarrow> string \<Rightarrow> LinkItem" where
  "bare_link i t u = \<lparr>id = i, title = t, shareUrl = u, quality = None, size = None, matchScore = None\<rparr>"

definition sample_params :: QuarkSearchParams where
  "sample_params = \<lparr>search_tmdbId = Some ''603'', query = None\<rparr>"

definition no_params :: QuarkSearchParams where
  "no_params = \<lparr>search_tmdbId = None, query = None\<rparr>"

definition completed_task :: TaskRecord where
  "completed_task = task_with_id\<lparr>status := ''completed''\<rparr>"

definition failed_task :: TaskRecord where
  "failed_task = task_with_id\<lparr>status := ''failed'', errorMessage := Some ''share expired''\<rparr>"

definition processing_task :: TaskRecord where
  "processing_task = task_with_id\<lparr>status := ''processing''\<rparr>"

definition one_task_page :: PageState where
  "one_task_page = \<lparr>notice = None, linkStatus = [''q1'' \<mapsto> PROVISIONING],
                     activeTasks = [(''t1'', ''q1'')]\<rparr>"

definition backend_ok :: "TaskRecord \<Rightarrow> TaskRecord ApiResult" where
  "backend_ok d = okResult d (Some \<lparr>source = Backend, warning = None\<rparr>)"

definition two_task_page :: PageState where
  "two_task_page = \<lparr>notice = None,
                     linkStatus = [''q1'' \<mapsto> PROVISIONING, ''q2'' \<mapsto> PROVISIONING],
                     activeTasks = [(''t1'', ''q1''), (''t2'', ''q2'')]\<rparr>"

text \<open>
  The page with two active tasks just after its effect ran at time 0: instance 1 is live,
  its first poll is in flight and its interval fires at 4000.
\<close>

definition polling_page :: Page where
  "polling_page =
     \<lparr>page_state = two_task_page, effect_no = 1, interval_due = Some 4000,
      in_flight = [\<lparr>poll_effect = 1, poll_tasks = [(''t1'', ''q1''), (''t2'', ''q2'')]\<rparr>]\<rparr>"





definition same_link_page :: PageState where
  "same_link_page = \<lparr>notice = None, linkStatus = [''q1'' \<mapsto> PROVISIONING],
                      activeTasks = [(''t1'', ''q1''), (''t2'', ''q1'')]\<rparr>"

definition failed_then_done :: "string \<Rightarrow> TaskRecord ApiResult" where
  "failed_then_done task_id =
     (if task_id = ''t1'' then backend_ok failed_task else backend_ok completed_task)"

definition failed_then_processing :: "string \<Rightarrow> TaskRecord ApiResult" where
  "failed_then_processing task_id =
     (if task_id = ''t1'' then backend_ok failed_task else backend_ok processing_task)"

definition fetch_timed_out :: "string \<Rightarrow> TaskRecord ApiResult" where
  "fetch_timed_out task_id = failResult ''Failed to fetch task status'' None None None"


section \<open>The retry loop, by induction\<close>

lemma backoff_events_step:
  "a < n \<Longrightarrow> backoff_events retry url a n =
     Fetch url a # Sleep (backoffMs retry * (int a + 1)) # backoff_events retry url (Suc a) n"
  by (simp add: backoff_events_def upt_conv_Cons)

lemma backoff_events_last: "backoff_events retry url n n = [Fetch url n]"
  by (simp add: backoff_events_def)

lemma fetch_count_backoff_events:
  "a \<le> n \<Longrightarrow> fetch_count (backoff_events retry url a n) = n - a + 1"
proof (induction "n - a" arbitrary: a)
  case 0
  then show ?case by (simp add: backoff_events_last fetch_count_def)
next
  case (Suc d)
  then have "a < n" by simp
  moreover have "fetch_count (backoff_events retry url (Suc a) n) = n - Suc a + 1"
    using Suc by simp
  ultimately show ?case
    by (simp add: backoff_events_step fetch_count_def)
qed

lemma loop_all_fail:
  assumes "int n = retries retry"
    and "\<And>k. a \<le> k \<Longrightarrow> k \<le> n \<Longrightarrow> attempt_once (net k) = Inl (err k)"
    and "a \<le> n"
  shows "requestJson_loop retry url net a = (Inl (err n), backoff_events retry url a n)"
  using assms(2,3)
proof (induction "n - a" arbitrary: a)
  case 0
  then have "a = n" by simp
  then show ?case
    using assms(1) 0(2)[of n]
    by (simp add: requestJson_loop.simps[of retry url net n] backoff_events_last)
next
  case (Suc d)
  then have lt: "a < n" by simp
  have ih: "requestJson_loop retry url net (a + 1) = (Inl (err n), backoff_events retry url (Suc a) n)"
    using Suc.hyps(1)[of "Suc a"] Suc.hyps(2) Suc.prems lt by simp
  have f: "attempt_once (net a) = Inl (err a)" using Suc.prems lt by simp
  show ?case
    using lt assms(1) f ih
    by (simp add: requestJson_loop.simps[of retry url net a] backoff_events_step)
qed


lemma loop_no_attempt:
  "retries retry < 0 \<Longrightarrow>
     requestJson_loop retry url net 0 = (Inl (ApiError ''Request failed'' 500 NoPayload None), [])"
  by (simp add: requestJson_loop.simps[of retry url net 0])

section \<open>Bounded retries of requestJson\<close>

lemma apiBaseUrl_host: "apiBaseUrl ''http://host'' = ''http://host/api/v1''"
  by (simp add: apiBaseUrl_def useMock_def baseUrl_def endsWith_def)

lemma useMock_host: "\<not> useMock ''http://host''"
  by (simp add: useMock_def baseUrl_def)

lemma useMock_empty: "useMock ''''"
  by (simp add: useMock_def baseUrl_def)


text \<open>
  C9. When every attempt of a request fails and \<open>retry.retries\<close> is not negative,
  \<open>requestJson\<close> makes exactly \<open>retry.retries + 1\<close> fetches, waits
  \<open>backoffMs * (attempt + 1)\<close> milliseconds after each failed attempt but the last, and
  throws the error of the last attempt: it returns no value and fetches no more.
\<close>

theorem requestJson_all_attempts_fail:
  assumes "0 \<le> retries (resolve_retry retry_opt)"
    and "\<forall>k. int k \<le> retries (resolve_retry retry_opt) \<longrightarrow> attempt_once (net k) = Inl (err k)"
  shows "requestJson raw path retry_opt net =
           (Inl (err (nat (retries (resolve_retry retry_opt)))),
            backoff_events (resolve_retry retry_opt) (apiBaseUrl raw @ path) 0
              (nat (retries (resolve_retry retry_opt))))
         \<and> fetch_count (snd (requestJson raw path retry_opt net)) =
             nat (retries (resolve_retry retry_opt)) + 1"
proof -
  let ?retry = "resolve_retry retry_opt"
  let ?n = "nat (retries ?retry)"
  have n: "int ?n = retries ?retry" using assms(1) by simp
  have fails: "\<And>k. 0 \<le> k \<Longrightarrow> k \<le> ?n \<Longrightarrow> attempt_once (net k) = Inl (err k)"
    using assms by (simp add: nat_le_iff)
  have "requestJson_loop ?retry (apiBaseUrl raw @ path) net 0 =
          (Inl (err ?n), backoff_events ?retry (apiBaseUrl raw @ path) 0 ?n)"
    by (rule loop_all_fail[OF n fails]) simp_all
  then show ?thesis
    by (simp add: requestJson_def fetch_count_backoff_events)
qed

text \<open>
  Under the default policy (\<open>retries = 1\<close>, \<open>backoffMs = 500\<close>) a request that always
  times out is fetched twice, with one wait of 500 ms between.
\<close>

theorem requestJson_all_attempts_fail_witness:
  "requestJson ''http://host'' ''/tasks/t1'' None (\<lambda>_. FetchRejects ''timeout'' :: unit FetchOutcome) =
     (Inl (OtherError ''timeout''),
      [Fetch ''http://host/api/v1/tasks/t1'' 0, Sleep 500, Fetch ''http://host/api/v1/tasks/t1'' 1])
   \<and> fetch_count (snd (requestJson ''http://host'' ''/tasks/t1'' None
        (\<lambda>_. FetchRejects ''timeout'' :: unit FetchOutcome))) = 2"
  using requestJson_all_attempts_fail[of None "\<lambda>_. FetchRejects ''timeout'' :: unit FetchOutcome"
      "\<lambda>_. OtherError ''timeout''" "''http://host''" "''/tasks/t1''"]
  by (simp add: resolve_retry_def DEFAULT_RETRY_def attempt_once_def backoff_events_def
      apiBaseUrl_host upt_rec fetch_count_def)




section \<open>Status mapping and the wrappers' results\<close>

text \<open>
  C2. \<open>mapTaskStatus\<close> is defined on every string: "pending" and "processing" give
  PROVISIONING, "completed" gives MATERIALIZED, "failed" gives FAILED, any other string
  gives PROVISIONING; so its value is always one of the four resource states.
\<close>

theorem mapTaskStatus_total:
  "mapTaskStatus ''pending'' = PROVISIONING
   \<and> mapTaskStatus ''processing'' = PROVISIONING
   \<and> mapTaskStatus ''completed'' = MATERIALIZED
   \<and> mapTaskStatus ''failed'' = FAILED
   \<and> (s \<notin> {''pending'', ''processing'', ''completed'', ''failed''} \<longrightarrow> mapTaskStatus s = PROVISIONING)
   \<and> mapTaskStatus s \<in> {VIRTUAL, PROVISIONING, MATERIALIZED, FAILED}"
  by (simp add: mapTaskStatus_def)

theorem mapTaskStatus_total_witness:
  "''queued'' \<notin> {''pending'', ''processing'', ''completed'', ''failed''}
   \<and> mapTaskStatus ''queued'' = PROVISIONING"
  using mapTaskStatus_total[of "''queued''"] by simp

text \<open>
  C5. Served by the mock (\<open>useMock\<close>), \<open>saveVirtualLink\<close> resolves, for every input and
  without a request, to a successful result whose status is VIRTUAL.
\<close>

theorem saveVirtualLink_mock_VIRTUAL:
  assumes "useMock raw"
  shows "\<exists>r. saveVirtualLink raw clk net params = (Inr r, [])
           \<and> ok r \<and> map_option resource_status (data r) = Some VIRTUAL"
  using assms by (simp add: saveVirtualLink_def okResult_def)

theorem saveVirtualLink_mock_VIRTUAL_witness:
  "\<exists>r. saveVirtualLink '''' sample_clock (\<lambda>_. FetchRejects ''offline'') sample_save = (Inr r, [])
           \<and> ok r \<and> map_option resource_status (data r) = Some VIRTUAL"
  using saveVirtualLink_mock_VIRTUAL[of "''''" sample_clock "\<lambda>_. FetchRejects ''offline''" sample_save]
  by (simp add: useMock_empty)

lemma truthy_Some: "truthy s \<longleftrightarrow> (\<exists>v. s = Some v \<and> v \<noteq> [])"
  by (cases s) (simp_all add: truthy_def)

text \<open>
  C6. A result of \<open>triggerJitProvision\<close> with \<open>ok = true\<close> carries a task record whose
  \<open>taskId\<close> is present and not empty; a backend response whose \<open>taskId\<close> is absent or
  empty becomes the failure "Missing taskId in response" with status 500.
\<close>

theorem triggerJitProvision_ok_has_taskId:
  "(\<forall>r tasks evs. triggerJitProvision raw clk net params mockTasks = (Inr r, tasks, evs) \<and> ok r
       \<longrightarrow> (\<exists>d v. data r = Some d \<and> taskId d = Some v \<and> v \<noteq> []))
   \<and> (\<forall>d evs. \<not> useMock raw
         \<and> requestJson raw (''/media/'' @ jit_tmdbId params @ ''/provision'') None net = (Inr d, evs)
         \<and> (taskId d = None \<or> taskId d = Some [])
       \<longrightarrow> triggerJitProvision raw clk net params mockTasks =
             (Inr (failResult ''Missing taskId in response'' (Some 500) None None), mockTasks, evs))"
proof (intro conjI allI impI)
  fix r tasks evs
  assume a: "triggerJitProvision raw clk net params mockTasks = (Inr r, tasks, evs) \<and> ok r"
  show "\<exists>d v. data r = Some d \<and> taskId d = Some v \<and> v \<noteq> []"
  proof (cases "useMock raw")
    case True
    with a show ?thesis
      by (auto simp: triggerJitProvision_def okResult_def mockTaskId_def Let_def)
  next
    case False
    with a show ?thesis
      by (auto simp: triggerJitProvision_def okResult_def failResult_def truthy_Some Let_def
          split: prod.splits sum.splits if_splits Thrown.splits)
  qed
next
  fix d evs
  assume "\<not> useMock raw
         \<and> requestJson raw (''/media/'' @ jit_tmdbId params @ ''/provision'') None net = (Inr d, evs)
         \<and> (taskId d = None \<or> taskId d = Some [])"
  then show "triggerJitProvision raw clk net params mockTasks =
             (Inr (failResult ''Missing taskId in response'' (Some 500) None None), mockTasks, evs)"
    by (auto simp: triggerJitProvision_def truthy_def)
qed


lemma requestJson_first_ok:
  "attempt_once (net 0) = Inr v \<Longrightarrow>
     requestJson raw path None net = (Inr v, [Fetch (apiBaseUrl raw @ path) 0])"
  by (simp add: requestJson_def resolve_retry_def DEFAULT_RETRY_def requestJson_loop.simps[of _ _ _ 0])

lemma attempt_once_json_response: "attempt_once (FetchResolves (json_response v)) = Inr v"
  by (simp add: attempt_once_def json_response_def)

theorem triggerJitProvision_ok_has_taskId_witness:
  "triggerJitProvision ''http://host'' sample_clock (\<lambda>_. FetchResolves (json_response task_without_id))
       sample_jit Map.empty =
     (Inr (failResult ''Missing taskId in response'' (Some 500) None None), Map.empty,
      [Fetch ''http://host/api/v1/media/603/provision'' 0])
   \<and> (\<exists>d. data (okResult task_with_id (Some \<lparr>source = Backend, warning = None\<rparr>)) = Some d
           \<and> taskId d = Some ''t1'')
   \<and> triggerJitProvision ''http://host'' sample_clock (\<lambda>_. FetchResolves (json_response task_with_id))
       sample_jit Map.empty =
     (Inr (okResult task_with_id (Some \<lparr>source = Backend, warning = None\<rparr>)), Map.empty,
      [Fetch ''http://host/api/v1/media/603/provision'' 0])"
proof -
  let ?net0 = "\<lambda>_::nat. FetchResolves (json_response task_without_id)"
  let ?net1 = "\<lambda>_::nat. FetchResolves (json_response task_with_id)"
  have r0: "requestJson ''http://host'' (''/media/'' @ jit_tmdbId sample_jit @ ''/provision'') None ?net0 =
              (Inr task_without_id, [Fetch ''http://host/api/v1/media/603/provision'' 0])"
    by (simp add: requestJson_first_ok attempt_once_json_response apiBaseUrl_host sample_jit_def)
  have r1: "requestJson ''http://host'' (''/media/'' @ jit_tmdbId sample_jit @ ''/provision'') None ?net1 =
              (Inr task_with_id, [Fetch ''http://host/api/v1/media/603/provision'' 0])"
    by (simp add: requestJson_first_ok attempt_once_json_response apiBaseUrl_host sample_jit_def)
  have t1: "triggerJitProvision ''http://host'' sample_clock ?net1 sample_jit Map.empty =
     (Inr (okResult task_with_id (Some \<lparr>source = Backend, warning = None\<rparr>)), Map.empty,
      [Fetch ''http://host/api/v1/media/603/provision'' 0])"
    using r1 by (simp add: triggerJitProvision_def useMock_host truthy_def task_with_id_def)
  have none: "taskId task_without_id = None" by (simp add: task_without_id_def)
  from triggerJitProvision_ok_has_taskId[of "''http://host''" sample_clock ?net0 sample_jit Map.empty]
  have "triggerJitProvision ''http://host'' sample_clock ?net0 sample_jit Map.empty =
     (Inr (failResult ''Missing taskId in response'' (Some 500) None None), Map.empty,
      [Fetch ''http://host/api/v1/media/603/provision'' 0])"
    using r0 none useMock_host by blast
  moreover
  from triggerJitProvision_ok_has_taskId[of "''http://host''" sample_clock ?net1 sample_jit Map.empty] t1
  have "\<exists>d v. data (okResult task_with_id (Some \<lparr>source = Backend, warning = None\<rparr>)) = Some d
           \<and> taskId d = Some v \<and> v \<noteq> []"
    by (simp add: okResult_def)
  ultimately show ?thesis
    using t1 by (simp add: okResult_def task_with_id_def)
qed

lemma attempt_once_message:
  "attempt_once out = Inl (ApiError msg st p rid) \<Longrightarrow> msg \<noteq> []"
  by (auto simp: attempt_once_def split: FetchOutcome.splits if_splits sum.splits)

lemma requestJson_loop_message:
  "requestJson_loop retry url net a = (Inl (ApiError msg st p rid), evs) \<Longrightarrow> msg \<noteq> []"
proof (induction retry url net a arbitrary: evs rule: requestJson_loop.induct)
  case (1 retry url net attempt)
  show ?case
  proof (cases "int attempt \<le> retries retry")
    case False
    with "1.prems" show ?thesis
      by (auto simp: requestJson_loop.simps[of retry url net attempt])
  next
    case True
    note le = this
    show ?thesis
    proof (cases "attempt_once (net attempt)")
      case (Inr v)
      with le "1.prems" show ?thesis
        by (simp add: requestJson_loop.simps[of retry url net attempt])
    next
      case (Inl err)
      show ?thesis
      proof (cases "retries retry \<le> int attempt")
        case True
        with le Inl "1.prems" have "err = ApiError msg st p rid"
          by (simp add: requestJson_loop.simps[of retry url net attempt])
        with Inl show ?thesis by (auto dest: attempt_once_message)
      next
        case False
        obtain r evs' where rest: "requestJson_loop retry url net (attempt + 1) = (r, evs')"
          by (cases "requestJson_loop retry url net (attempt + 1)")
        with le Inl False "1.prems" have "r = Inl (ApiError msg st p rid)"
          by (simp add: requestJson_loop.simps[of retry url net attempt])
        with "1.IH"[OF le Inl _ ] False rest show ?thesis by simp
      qed
    qed
  qed
qed

lemma requestJson_message:
  "requestJson raw path retry_opt net = (Inl (ApiError msg st p rid), evs) \<Longrightarrow> msg \<noteq> []"
  unfolding requestJson_def by (rule requestJson_loop_message)


lemma is_failure_failResult: "is_failure (failResult msg st cd rid) \<longleftrightarrow> msg \<noteq> []"
  by (simp add: is_failure_def failResult_def)

lemma ok_okResult: "ok (okResult d m)"
  by (simp add: okResult_def)

lemma saveVirtualLink_failure:
  assumes "\<not> useMock raw"
    and "requestJson raw (''/media/'' @ save_tmdbId params @ ''/links/virtual'') None net = (Inl err, evs)"
  shows "\<exists>r. saveVirtualLink raw clk net params = (Inr r, evs) \<and> is_failure r"
proof (cases err)
  case (ApiError msg st p rid)
  with assms have "msg \<noteq> []" by (auto dest: requestJson_message)
  with assms ApiError show ?thesis
    by (simp add: saveVirtualLink_def is_failure_failResult)
next
  case (OtherError why)
  with assms show ?thesis
    by (simp add: saveVirtualLink_def is_failure_failResult)
qed

lemma saveVirtualLink_resolves:
  "\<exists>r evs. saveVirtualLink raw clk net params = (Inr r, evs) \<and> (ok r \<or> is_failure r)"
proof (cases "useMock raw")
  case True
  then show ?thesis by (simp add: saveVirtualLink_def ok_okResult)
next
  case False
  obtain res evs where rq:
    "requestJson raw (''/media/'' @ save_tmdbId params @ ''/links/virtual'') None net = (res, evs)"
    by (cases "requestJson raw (''/media/'' @ save_tmdbId params @ ''/links/virtual'') None net")
  show ?thesis
  proof (cases res)
    case (Inr d)
    with False rq show ?thesis by (simp add: saveVirtualLink_def ok_okResult)
  next
    case (Inl err)
    with saveVirtualLink_failure[OF False] rq show ?thesis by blast
  qed
qed

lemma getTaskStatus_failure:
  assumes "\<not> useMock raw"
    and "requestJson raw (''/tasks/'' @ task_id) None net = (Inl err, evs)"
  shows "\<exists>r. getTaskStatus raw net task_id mockTasks = (Inr r, evs) \<and> is_failure r"
proof (cases err)
  case (ApiError msg st p rid)
  with assms have "msg \<noteq> []" by (auto dest: requestJson_message)
  with assms ApiError show ?thesis
    by (simp add: getTaskStatus_def is_failure_failResult)
next
  case (OtherError why)
  with assms show ?thesis
    by (simp add: getTaskStatus_def is_failure_failResult)
qed

lemma getTaskStatus_not_found:
  "useMock raw \<Longrightarrow> mockTasks task_id = None \<Longrightarrow>
     getTaskStatus raw net task_id mockTasks =
       (Inr (failResult ''Task not found'' (Some 404) (Some ''TASK_NOT_FOUND'') None), [])"
  by (simp add: getTaskStatus_def)

lemma getTaskStatus_resolves:
  "\<exists>r evs. getTaskStatus raw net task_id mockTasks = (Inr r, evs) \<and> (ok r \<or> is_failure r)"
proof (cases "useMock raw")
  case True
  then show ?thesis
    by (cases "mockTasks task_id") (simp_all add: getTaskStatus_def ok_okResult is_failure_failResult)
next
  case False
  obtain res evs where rq: "requestJson raw (''/tasks/'' @ task_id) None net = (res, evs)"
    by (cases "requestJson raw (''/tasks/'' @ task_id) None net")
  show ?thesis
  proof (cases res)
    case (Inr d)
    with False rq show ?thesis by (simp add: getTaskStatus_def ok_okResult)
  next
    case (Inl err)
    with getTaskStatus_failure[OF False] rq show ?thesis by blast
  qed
qed

lemma triggerJitProvision_failure:
  assumes "\<not> useMock raw"
    and "requestJson raw (''/media/'' @ jit_tmdbId params @ ''/provision'') None net = (Inl err, evs)"
  shows "\<exists>r. triggerJitProvision raw clk net params mockTasks = (Inr r, mockTasks, evs) \<and> is_failure r"
proof (cases err)
  case (ApiError msg st p rid)
  with assms have "msg \<noteq> []" by (auto dest: requestJson_message)
  with assms ApiError show ?thesis
    by (simp add: triggerJitProvision_def is_failure_failResult)
next
  case (OtherError why)
  with assms show ?thesis
    by (simp add: triggerJitProvision_def is_failure_failResult)
qed

lemma triggerJitProvision_resolves:
  "\<exists>r tasks evs. triggerJitProvision raw clk net params mockTasks = (Inr r, tasks, evs)
      \<and> (ok r \<or> is_failure r)"
proof (cases "useMock raw")
  case True
  then show ?thesis by (simp add: triggerJitProvision_def ok_okResult Let_def)
next
  case False
  obtain res evs where rq:
    "requestJson raw (''/media/'' @ jit_tmdbId params @ ''/provision'') None net = (res, evs)"
    by (cases "requestJson raw (''/media/'' @ jit_tmdbId params @ ''/provision'') None net")
  show ?thesis
  proof (cases res)
    case (Inr d)
    with False rq show ?thesis
      by (simp add: triggerJitProvision_def ok_okResult is_failure_failResult)
  next
    case (Inl err)
    with triggerJitProvision_failure[OF False] rq show ?thesis by blast
  qed
qed

text \<open>
  C8. \<open>saveVirtualLink\<close>, \<open>triggerJitProvision\<close> and \<open>getTaskStatus\<close> never reject: on
  every input they resolve to a result that is successful or reports a failure with a
  non-empty message; when the underlying request throws, whatever it throws, they resolve
  to such a failure; and in mock mode \<open>getTaskStatus\<close> of a task id absent from
  \<open>mockTasks\<close> resolves to the failure "Task not found", status 404, code
  "TASK_NOT_FOUND".
\<close>

theorem wrappers_never_reject:
  "(\<exists>r evs. saveVirtualLink raw clk net_s sp = (Inr r, evs) \<and> (ok r \<or> is_failure r))
   \<and> (\<exists>r tasks evs. triggerJitProvision raw clk net_t jp mockTasks = (Inr r, tasks, evs)
         \<and> (ok r \<or> is_failure r))
   \<and> (\<exists>r evs. getTaskStatus raw net_t task_id mockTasks = (Inr r, evs) \<and> (ok r \<or> is_failure r))
   \<and> (\<not> useMock raw \<longrightarrow>
        (\<forall>err evs. requestJson raw (''/media/'' @ save_tmdbId sp @ ''/links/virtual'') None net_s = (Inl err, evs)
           \<longrightarrow> (\<exists>r. saveVirtualLink raw clk net_s sp = (Inr r, evs) \<and> is_failure r))
      \<and> (\<forall>err evs. requestJson raw (''/media/'' @ jit_tmdbId jp @ ''/provision'') None net_t = (Inl err, evs)
           \<longrightarrow> (\<exists>r. triggerJitProvision raw clk net_t jp mockTasks = (Inr r, mockTasks, evs) \<and> is_failure r))
      \<and> (\<forall>err evs. requestJson raw (''/tasks/'' @ task_id) None net_t = (Inl err, evs)
           \<longrightarrow> (\<exists>r. getTaskStatus raw net_t task_id mockTasks = (Inr r, evs) \<and> is_failure r)))
   \<and> (useMock raw \<and> mockTasks task_id = None \<longrightarrow>
        getTaskStatus raw net_t task_id mockTasks =
          (Inr (failResult ''Task not found'' (Some 404) (Some ''TASK_NOT_FOUND'') None), []))"
proof (intro conjI impI allI)
  show "\<exists>r evs. saveVirtualLink raw clk net_s sp = (Inr r, evs) \<and> (ok r \<or> is_failure r)"
    by (rule saveVirtualLink_resolves)
  show "\<exists>r tasks evs. triggerJitProvision raw clk net_t jp mockTasks = (Inr r, tasks, evs)
         \<and> (ok r \<or> is_failure r)"
    by (rule triggerJitProvision_resolves)
  show "\<exists>r evs. getTaskStatus raw net_t task_id mockTasks = (Inr r, evs) \<and> (ok r \<or> is_failure r)"
    by (rule getTaskStatus_resolves)
next
  fix err evs
  assume "\<not> useMock raw"
    and "requestJson raw (''/media/'' @ save_tmdbId sp @ ''/links/virtual'') None net_s = (Inl err, evs)"
  then show "\<exists>r. saveVirtualLink raw clk net_s sp = (Inr r, evs) \<and> is_failure r"
    by (rule saveVirtualLink_failure)
next
  fix err evs
  assume "\<not> useMock raw"
    and "requestJson raw (''/media/'' @ jit_tmdbId jp @ ''/provision'') None net_t = (Inl err, evs)"
  then show "\<exists>r. triggerJitProvision raw clk net_t jp mockTasks = (Inr r, mockTasks, evs) \<and> is_failure r"
    by (rule triggerJitProvision_failure)
next
  fix err evs
  assume "\<not> useMock raw"
    and "requestJson raw (''/tasks/'' @ task_id) None net_t = (Inl err, evs)"
  then show "\<exists>r. getTaskStatus raw net_t task_id mockTasks = (Inr r, evs) \<and> is_failure r"
    by (rule getTaskStatus_failure)
next
  assume "useMock raw \<and> mockTasks task_id = None"
  then show "getTaskStatus raw net_t task_id mockTasks =
          (Inr (failResult ''Task not found'' (Some 404) (Some ''TASK_NOT_FOUND'') None), [])"
    by (simp add: getTaskStatus_not_found)
qed

lemma requestJson_two_failures:
  "attempt_once (net 0) = Inl e0 \<Longrightarrow> attempt_once (net 1) = Inl e1 \<Longrightarrow>
     requestJson raw path None net =
       (Inl e1, [Fetch (apiBaseUrl raw @ path) 0, Sleep 500, Fetch (apiBaseUrl raw @ path) 1])"
  by (simp add: requestJson_def resolve_retry_def DEFAULT_RETRY_def
      requestJson_loop.simps[of _ _ _ 0] requestJson_loop.simps[of _ _ _ "Suc 0"])

theorem wrappers_never_reject_witness:
  "saveVirtualLink ''http://host'' sample_clock (\<lambda>_. FetchRejects ''timeout'') sample_save =
     (Inr (failResult ''Failed to save virtual link'' None None None),
      [Fetch ''http://host/api/v1/media/603/links/virtual'' 0, Sleep 500,
       Fetch ''http://host/api/v1/media/603/links/virtual'' 1])
   \<and> is_failure (failResult ''Failed to save virtual link'' None None None :: SavedLink ApiResult)
   \<and> triggerJitProvision ''http://host'' sample_clock (\<lambda>_. FetchResolves unauthorized_text) sample_jit
         Map.empty =
       (Inr (failResult ''Failed to trigger JIT provisioning'' None None None), Map.empty,
        [Fetch ''http://host/api/v1/media/603/provision'' 0, Sleep 500,
         Fetch ''http://host/api/v1/media/603/provision'' 1])
   \<and> is_failure (failResult ''Failed to trigger JIT provisioning'' None None None :: TaskRecord ApiResult)
   \<and> getTaskStatus '''' (\<lambda>_. FetchRejects ''timeout'') ''nope'' Map.empty =
       (Inr (failResult ''Task not found'' (Some 404) (Some ''TASK_NOT_FOUND'') None), [])"
proof -
  let ?net = "\<lambda>_::nat. FetchRejects ''timeout'' :: SavedLink FetchOutcome"
  let ?nett = "\<lambda>_::nat. FetchRejects ''timeout'' :: TaskRecord FetchOutcome"
  let ?net401 = "\<lambda>_::nat. FetchResolves unauthorized_text :: TaskRecord FetchOutcome"
  have rq: "requestJson ''http://host'' (''/media/'' @ save_tmdbId sample_save @ ''/links/virtual'') None ?net =
       (Inl (OtherError ''timeout''),
        [Fetch ''http://host/api/v1/media/603/links/virtual'' 0, Sleep 500,
         Fetch ''http://host/api/v1/media/603/links/virtual'' 1])"
    by (simp add: requestJson_two_failures attempt_once_def apiBaseUrl_host sample_save_def)
  have rq401: "requestJson ''http://host'' (''/media/'' @ jit_tmdbId sample_jit @ ''/provision'') None ?net401 =
       (Inl (OtherError ''TypeError''),
        [Fetch ''http://host/api/v1/media/603/provision'' 0, Sleep 500,
         Fetch ''http://host/api/v1/media/603/provision'' 1])"
    by (simp add: requestJson_two_failures attempt_once_def apiBaseUrl_host sample_jit_def
        unauthorized_text_def)
  note inst = wrappers_never_reject[of "''http://host''" sample_clock ?net sample_save ?net401 sample_jit
      Map.empty "''nope''"]
  note inst_mock = wrappers_never_reject[of "''''" sample_clock ?net sample_save ?nett sample_jit
      Map.empty "''nope''"]
  from inst rq useMock_host obtain r where
    r: "saveVirtualLink ''http://host'' sample_clock ?net sample_save =
          (Inr r,
           [Fetch ''http://host/api/v1/media/603/links/virtual'' 0, Sleep 500,
            Fetch ''http://host/api/v1/media/603/links/virtual'' 1])" "is_failure r"
    by blast
  from inst rq401 useMock_host obtain r' where
    r': "triggerJitProvision ''http://host'' sample_clock ?net401 sample_jit Map.empty =
          (Inr r', Map.empty,
           [Fetch ''http://host/api/v1/media/603/provision'' 0, Sleep 500,
            Fetch ''http://host/api/v1/media/603/provision'' 1])" "is_failure r'"
    by blast
  have s: "saveVirtualLink ''http://host'' sample_clock ?net sample_save =
     (Inr (failResult ''Failed to save virtual link'' None None None),
      [Fetch ''http://host/api/v1/media/603/links/virtual'' 0, Sleep 500,
       Fetch ''http://host/api/v1/media/603/links/virtual'' 1])"
    using rq by (simp add: saveVirtualLink_def useMock_host)
  from s r have sf: "is_failure (failResult ''Failed to save virtual link'' None None None :: SavedLink ApiResult)"
    by simp
  have t: "triggerJitProvision ''http://host'' sample_clock ?net401 sample_jit Map.empty =
       (Inr (failResult ''Failed to trigger JIT provisioning'' None None None), Map.empty,
        [Fetch ''http://host/api/v1/media/603/provision'' 0, Sleep 500,
         Fetch ''http://host/api/v1/media/603/provision'' 1])"
    using rq401 by (simp add: triggerJitProvision_def useMock_host)
  from t r' have tf: "is_failure (failResult ''Failed to trigger JIT provisioning'' None None None :: TaskRecord ApiResult)"
    by simp
  from inst_mock useMock_empty
  have g: "getTaskStatus '''' ?nett ''nope'' Map.empty =
       (Inr (failResult ''Task not found'' (Some 404) (Some ''TASK_NOT_FOUND'') None), [])"
    by simp
  from s sf t tf g show ?thesis by blast
qed


section \<open>The mock task store\<close>

lemmas show_nat_numeral = show_nat.simps[of "numeral n"] for n

lemma show_nat_digit: "n < 10 \<Longrightarrow> show_nat n = [digit_char n]"
  by (simp add: show_nat.simps[of n])

lemma digit_char_simps:
  "digit_char 0 = CHR ''0''" "digit_char (Suc 0) = CHR ''1''" "digit_char 1 = CHR ''1''"
  by (simp_all add: digit_char_def)

lemma mockTaskId_sample: "mockTaskId sample_clock = ''task_1000_abcde''"
  by (simp add: mockTaskId_def sample_clock_def show_nat_numeral show_nat_digit digit_char_simps)

lemma mockTaskId_later: "mockTaskId later_clock = ''task_1001_fghij''"
  by (simp add: mockTaskId_def later_clock_def show_nat_numeral show_nat_digit digit_char_simps)

text \<open>
  C1, as the code has it. In mock mode \<open>triggerJitProvision\<close> is not idempotent: every
  call, whatever the store holds, generates a \<open>taskId\<close>, stores under it a record with that
  \<open>taskId\<close>, status "processing" and the call's \<open>tmdbId\<close> and \<open>linkId\<close>, and returns that
  record. Two successive calls with the same parameters whose generated ids differ return
  different task ids and leave both records in the store: two more tasks than before when
  the store is finite and neither id was in it. In backend mode the call neither reads nor writes
  \<open>mockTasks\<close>, and it returns the backend's record as a success when that record has a
  non-empty \<open>taskId\<close>.
\<close>

theorem provision_creates_task_each_call:
  "(useMock raw \<longrightarrow>
      (\<exists>d. triggerJitProvision raw clk net params mockTasks =
             (Inr (okResult d
                     (Some \<lparr>source = Mock,
                            warning = Some (buildMockWarning raw ''triggerJitProvision'')\<rparr>)),
              mockTasks(mockTaskId clk \<mapsto> d), [])
           \<and> taskId d = Some (mockTaskId clk) \<and> status d = ''processing''
           \<and> tmdbId d = jit_tmdbId params \<and> linkId d = Some (jit_linkId params)))
   \<and> (useMock raw \<and> mockTaskId clk1 \<noteq> mockTaskId clk2 \<longrightarrow>
        (case provision_twice raw clk1 clk2 net params mockTasks of
           (r1, r2, tasks) \<Rightarrow>
             result_taskId r1 = Some (mockTaskId clk1)
             \<and> result_taskId r2 = Some (mockTaskId clk2)
             \<and> result_taskId r1 \<noteq> result_taskId r2
             \<and> dom tasks = dom mockTasks \<union> {mockTaskId clk1, mockTaskId clk2}
             \<and> map_option status (tasks (mockTaskId clk1)) = Some ''processing''
             \<and> map_option status (tasks (mockTaskId clk2)) = Some ''processing''
             \<and> (finite (dom mockTasks) \<and> mockTaskId clk1 \<notin> dom mockTasks
                  \<and> mockTaskId clk2 \<notin> dom mockTasks
                \<longrightarrow> card (dom tasks) = card (dom mockTasks) + 2)))
   \<and> (\<not> useMock raw \<longrightarrow>
        fst (snd (triggerJitProvision raw clk net params mockTasks)) = mockTasks
        \<and> fst (triggerJitProvision raw clk net params mockTasks) =
            fst (triggerJitProvision raw clk net params otherTasks)
        \<and> (\<forall>d evs. requestJson raw (''/media/'' @ jit_tmdbId params @ ''/provision'') None net = (Inr d, evs)
               \<and> truthy (taskId d)
             \<longrightarrow> triggerJitProvision raw clk net params mockTasks =
                   (Inr (okResult d (Some \<lparr>source = Backend, warning = None\<rparr>)), mockTasks, evs)))"
proof (intro conjI impI)
  assume "useMock raw"
  then show "\<exists>d. triggerJitProvision raw clk net params mockTasks =
             (Inr (okResult d
                     (Some \<lparr>source = Mock,
                            warning = Some (buildMockWarning raw ''triggerJitProvision'')\<rparr>)),
              mockTasks(mockTaskId clk \<mapsto> d), [])
           \<and> taskId d = Some (mockTaskId clk) \<and> status d = ''processing''
           \<and> tmdbId d = jit_tmdbId params \<and> linkId d = Some (jit_linkId params)"
    by (intro exI[of _ "\<lparr>taskId = Some (mockTaskId clk), status = ''processing'',
          tmdbId = jit_tmdbId params, linkId = Some (jit_linkId params),
          updatedAt = iso_now clk, progress = None, resultWebdavUrl = None,
          errorMessage = None\<rparr>"])
      (simp add: triggerJitProvision_def Let_def)
next
  assume a: "useMock raw \<and> mockTaskId clk1 \<noteq> mockTaskId clk2"
  then show "case provision_twice raw clk1 clk2 net params mockTasks of
           (r1, r2, tasks) \<Rightarrow>
             result_taskId r1 = Some (mockTaskId clk1)
             \<and> result_taskId r2 = Some (mockTaskId clk2)
             \<and> result_taskId r1 \<noteq> result_taskId r2
             \<and> dom tasks = dom mockTasks \<union> {mockTaskId clk1, mockTaskId clk2}
             \<and> map_option status (tasks (mockTaskId clk1)) = Some ''processing''
             \<and> map_option status (tasks (mockTaskId clk2)) = Some ''processing''
             \<and> (finite (dom mockTasks) \<and> mockTaskId clk1 \<notin> dom mockTasks
                  \<and> mockTaskId clk2 \<notin> dom mockTasks
                \<longrightarrow> card (dom tasks) = card (dom mockTasks) + 2)"
    by (auto simp: provision_twice_def triggerJitProvision_def Let_def okResult_def result_taskId_def
        card_insert_if domIff)
next
  assume "\<not> useMock raw"
  then show "fst (snd (triggerJitProvision raw clk net params mockTasks)) = mockTasks"
    by (auto simp: triggerJitProvision_def Let_def split: prod.splits sum.splits Thrown.splits)
next
  assume "\<not> useMock raw"
  then show "fst (triggerJitProvision raw clk net params mockTasks) =
            fst (triggerJitProvision raw clk net params otherTasks)"
    by (auto simp: triggerJitProvision_def Let_def split: prod.splits sum.splits Thrown.splits)
next
  assume "\<not> useMock raw"
  then show "\<forall>d evs. requestJson raw (''/media/'' @ jit_tmdbId params @ ''/provision'') None net = (Inr d, evs)
               \<and> truthy (taskId d)
             \<longrightarrow> triggerJitProvision raw clk net params mockTasks =
                   (Inr (okResult d (Some \<lparr>source = Backend, warning = None\<rparr>)), mockTasks, evs)"
    by (simp add: triggerJitProvision_def)
qed

theorem provision_creates_task_each_call_witness:
  "(case provision_twice '''' sample_clock later_clock offline sample_jit Map.empty of
      (r1, r2, tasks) \<Rightarrow>
        result_taskId r1 = Some ''task_1000_abcde''
        \<and> result_taskId r2 = Some ''task_1001_fghij''
        \<and> dom tasks = {''task_1000_abcde'', ''task_1001_fghij''}
        \<and> card (dom tasks) = 2)
   \<and> (\<exists>d. fst (triggerJitProvision '''' sample_clock offline sample_jit Map.empty) =
             Inr (okResult d
                    (Some \<lparr>source = Mock,
                           warning = Some (buildMockWarning '''' ''triggerJitProvision'')\<rparr>))
          \<and> taskId d = Some ''task_1000_abcde'' \<and> status d = ''processing'')
   \<and> triggerJitProvision ''http://host'' sample_clock (\<lambda>_. FetchResolves (json_response task_with_id))
        sample_jit Map.empty =
       (Inr (okResult task_with_id (Some \<lparr>source = Backend, warning = None\<rparr>)), Map.empty,
        [Fetch ''http://host/api/v1/media/603/provision'' 0])"
proof -
  let ?net1 = "\<lambda>_::nat. FetchResolves (json_response task_with_id)"
  have r1: "requestJson ''http://host'' (''/media/'' @ jit_tmdbId sample_jit @ ''/provision'') None ?net1 =
              (Inr task_with_id, [Fetch ''http://host/api/v1/media/603/provision'' 0])"
    by (simp add: requestJson_first_ok attempt_once_json_response apiBaseUrl_host sample_jit_def)
  have tr: "truthy (taskId task_with_id)"
    by (simp add: truthy_def task_with_id_def)
  note inst_mock = provision_creates_task_each_call[of "''''" sample_clock offline sample_jit Map.empty
      sample_clock later_clock Map.empty]
  note inst_backend = provision_creates_task_each_call[of "''http://host''" sample_clock ?net1 sample_jit
      Map.empty sample_clock later_clock Map.empty]
  from inst_mock have twice:
    "case provision_twice '''' sample_clock later_clock offline sample_jit Map.empty of
      (r1, r2, tasks) \<Rightarrow>
        result_taskId r1 = Some ''task_1000_abcde''
        \<and> result_taskId r2 = Some ''task_1001_fghij''
        \<and> dom tasks = {''task_1000_abcde'', ''task_1001_fghij''}
        \<and> card (dom tasks) = 2"
    by (auto simp: useMock_empty mockTaskId_sample mockTaskId_later split: prod.splits)
  from inst_mock have once:
    "\<exists>d. fst (triggerJitProvision '''' sample_clock offline sample_jit Map.empty) =
             Inr (okResult d
                    (Some \<lparr>source = Mock,
                           warning = Some (buildMockWarning '''' ''triggerJitProvision'')\<rparr>))
          \<and> taskId d = Some ''task_1000_abcde'' \<and> status d = ''processing''"
    by (auto simp: useMock_empty mockTaskId_sample)
  from inst_backend r1 tr useMock_host have backend:
    "triggerJitProvision ''http://host'' sample_clock ?net1 sample_jit Map.empty =
       (Inr (okResult task_with_id (Some \<lparr>source = Backend, warning = None\<rparr>)), Map.empty,
        [Fetch ''http://host/api/v1/media/603/provision'' 0])"
    by blast
  from twice once backend show ?thesis by blast
qed

text \<open>
  C1 as stated fails: from an empty store, two successive mock calls with the same
  \<open>{tmdbId, linkId}\<close> return different task ids and leave two tasks in the store.
\<close>

theorem provision_twice_not_idempotent_counterexample:
  "result_taskId (fst (provision_twice '''' sample_clock later_clock offline sample_jit Map.empty))
     \<noteq> result_taskId (fst (snd (provision_twice '''' sample_clock later_clock offline sample_jit Map.empty)))
   \<and> card (dom (snd (snd (provision_twice '''' sample_clock later_clock offline sample_jit Map.empty)))) = 2"
  by (simp add: provision_twice_def triggerJitProvision_def Let_def okResult_def result_taskId_def
      useMock_empty mockTaskId_sample mockTaskId_later)

section \<open>The search result is the flattening\<close>

lemma title_or: "or_else (or_opt (item_title item) (content item)) ''Untitled'' = link_title item"
  by (simp add: or_else_def or_opt_def truthy_def link_title_def split: option.splits)

lemma base_id_or:
  "or_else (or_opt (item_id item) (messageId item)) (gid @ CHR ''-'' # show_nat k) = link_base_id gid k item"
  by (simp add: or_else_def or_opt_def truthy_def link_base_id_def split: option.splits)

lemma forEach_link_append:
  "forEach_link baseId ttl ls k links =
     links @ map (\<lambda>(linkIndex, link).
                    \<lparr>id = baseId @ ''-'' @ show_nat linkIndex, title = ttl, shareUrl = link,
                     quality = None, size = None, matchScore = None\<rparr>) (enumerate k ls)"
  by (induction ls arbitrary: k links) simp_all

lemma forEach_item_append:
  "forEach_item gid items k links = links @ concat (map (item_links gid) (enumerate k items))"
proof (induction items arbitrary: k links)
  case Nil
  then show ?case by simp
next
  case (Cons item rest)
  show ?case
    by (simp add: Cons.IH forEach_link_append title_or base_id_or item_links_def Let_def)
qed

lemma forEach_group_append: "forEach_group gs links = links @ flatten_links gs"
  by (induction gs arbitrary: links) (simp_all add: flatten_links_def forEach_item_append)

lemma length_item_links:
  "length (item_links gid p) = (case cloudLinks (snd p) of None \<Rightarrow> 0 | Some ls \<Rightarrow> length ls)"
  by (simp add: item_links_def split: option.splits)

lemma length_concat_item_links:
  "length (concat (map (item_links gid) (enumerate k items))) =
     sum_list (map (\<lambda>item. case cloudLinks item of None \<Rightarrow> 0 | Some ls \<Rightarrow> length ls) items)"
  by (induction items arbitrary: k) (simp_all add: length_item_links)

lemma length_flatten_links: "length (flatten_links gs) = cloud_link_count gs"
  by (induction gs) (simp_all add: flatten_links_def cloud_link_count_def length_concat_item_links)

text \<open>
  C10. In backend mode, with a keyword and a search request that succeeds,
  \<open>searchQuarkLinks\<close> returns the flattening of the response: one link item per element of
  each item's \<open>cloudLinks\<close>, in group, item and link order, with the title and the id as
  \<open>link_title\<close> and \<open>link_base_id\<close> give them and the link index as suffix. When
  \<open>params.query\<close> and \<open>params.tmdbId\<close> are both absent it returns the empty list and makes
  no request, in either mode.
\<close>

theorem searchQuarkLinks_flattens:
  "(\<not> useMock raw \<and> search_keyword params \<noteq> []
      \<and> requestJson raw ''/resources/search'' None net = (Inr response, evs)
     \<longrightarrow> searchQuarkLinks raw mockQuarkLinks net params = (Inr (flatten_links (search_data response)), evs)
         \<and> length (flatten_links (search_data response)) = cloud_link_count (search_data response))
   \<and> (query params = None \<and> search_tmdbId params = None
     \<longrightarrow> searchQuarkLinks raw mockQuarkLinks net params = (Inr [], []))"
  by (auto simp: searchQuarkLinks_def forEach_group_append length_flatten_links
      search_keyword_def getMockQuarkLinks_def truthy_def)




lemma flatten_sample:
  "flatten_links (search_data sample_search) =
     [bare_link ''a-0'' ''Alpha'' ''u0'', bare_link ''a-1'' ''Alpha'' ''u1'',
      bare_link ''g1-2-0'' ''Beta'' ''u2'', bare_link ''m7-0'' ''Untitled'' ''u3'']"
  by (simp add: flatten_links_def sample_search_def item_links_def link_base_id_def link_title_def
      truthy_def bare_link_def enumerate_eq_zip upt_rec show_nat_digit digit_char_def)

theorem searchQuarkLinks_flattens_witness:
  "searchQuarkLinks ''http://host'' Map.empty (\<lambda>_. FetchResolves (json_response sample_search))
       sample_params =
     (Inr [bare_link ''a-0'' ''Alpha'' ''u0'', bare_link ''a-1'' ''Alpha'' ''u1'',
           bare_link ''g1-2-0'' ''Beta'' ''u2'', bare_link ''m7-0'' ''Untitled'' ''u3''],
      [Fetch ''http://host/api/v1/resources/search'' 0])
   \<and> cloud_link_count (search_data sample_search) = 4
   \<and> searchQuarkLinks ''http://host'' Map.empty (\<lambda>_. FetchResolves (json_response sample_search))
       no_params = (Inr [], [])"
proof -
  let ?net = "\<lambda>_::nat. FetchResolves (json_response sample_search)"
  have rq: "requestJson ''http://host'' ''/resources/search'' None ?net =
              (Inr sample_search, [Fetch ''http://host/api/v1/resources/search'' 0])"
    by (simp add: requestJson_first_ok attempt_once_json_response apiBaseUrl_host)
  have kw: "search_keyword sample_params \<noteq> []"
    by (simp add: search_keyword_def sample_params_def)
  have none: "query no_params = None \<and> search_tmdbId no_params = None"
    by (simp add: no_params_def)
  from searchQuarkLinks_flattens[of "''http://host''" sample_params ?net sample_search
      "[Fetch ''http://host/api/v1/resources/search'' 0]" Map.empty] rq kw useMock_host
  have "searchQuarkLinks ''http://host'' Map.empty ?net sample_params =
          (Inr (flatten_links (search_data sample_search)),
           [Fetch ''http://host/api/v1/resources/search'' 0])
        \<and> length (flatten_links (search_data sample_search)) = cloud_link_count (search_data sample_search)"
    by blast
  moreover
  from searchQuarkLinks_flattens[of "''http://host''" no_params ?net sample_search
      "[Fetch ''http://host/api/v1/resources/search'' 0]" Map.empty] none
  have "searchQuarkLinks ''http://host'' Map.empty ?net no_params = (Inr [], [])"
    by blast
  ultimately show ?thesis
    by (simp add: flatten_sample)
qed


section \<open>The poll step\<close>

lemma keys_delete: "fst ` set (AList.delete k al) = fst ` set al - {k}"
  by (induction al) auto



lemma pollResult_notices:
  "notices (pollResult m active (t, r) acc) =
     notices acc @
       (if truthy (map_of active t) then (case passed_notice r of None \<Rightarrow> [] | Some n \<Rightarrow> [n])
        else [])"
  by (auto simp: pollResult_def Let_def passed_notice_def split: option.splits)

lemma pollResult_updates:
  "updates (pollResult m active (t, r) acc) =
     (if truthy (map_of active t)
      then AList.update (the (map_of active t)) (written_status r) (updates acc)
      else updates acc)"
  by (auto simp: pollResult_def Let_def written_status_def split: option.splits)



lemma fold_pollResult_notices:
  "notices (fold (pollResult m active) (map (\<lambda>k. (k, f k)) ks) acc) =
     notices acc @
       concat (map (\<lambda>t. case passed_notice (f t) of None \<Rightarrow> [] | Some n \<Rightarrow> [n])
                 (filter (\<lambda>t. truthy (map_of active t)) ks))"
  by (induction ks arbitrary: acc) (simp_all add: pollResult_notices)

lemma fold_pollResult_updates:
  "map_of (updates (fold (pollResult m active) (map (\<lambda>k. (k, f k)) ks) acc)) l =
     (case filter (\<lambda>t. map_of active t = Some l) (filter (\<lambda>t. truthy (map_of active t)) ks) of
        [] \<Rightarrow> map_of (updates acc) l
      | t # ts \<Rightarrow> Some (written_status (f (last (t # ts)))))"
proof (induction ks arbitrary: acc)
  case Nil
  then show ?case by simp
next
  case (Cons k ks)
  let ?acc = "pollResult m active (k, f k) acc"
  let ?rest = "filter (\<lambda>t. map_of active t = Some l) (filter (\<lambda>t. truthy (map_of active t)) ks)"
  note ih = Cons.IH[of ?acc]
  show ?case
  proof (cases "truthy (map_of active k) \<and> map_of active k = Some l")
    case True
    then have t1: "truthy (map_of active k)" and t2: "map_of active k = Some l" by blast+
    from t1 t2 have t3: "truthy (Some l)" by simp
    have here: "map_of (updates ?acc) l = Some (written_status (f k))"
      using t1 by (simp add: pollResult_updates update_conv' t2)
    show ?thesis
    proof (cases ?rest)
      case Nil
      with ih here t2 t3 show ?thesis by simp
    next
      case (Cons t ts)
      with ih t2 t3 show ?thesis by simp
    qed
  next
    case False
    then have here: "map_of (updates ?acc) l = map_of (updates acc) l"
      by (auto simp: pollResult_updates update_conv' truthy_Some)
    show ?thesis
    proof (cases ?rest)
      case Nil
      with ih here False show ?thesis by auto
    next
      case (Cons t ts)
      with ih False show ?thesis by auto
    qed
  qed
qed

lemma pollTasks_cancelled: "fst (pollTasks m active f True st) = st"
  by (simp add: pollTasks_def Let_def)




lemma pollTasks_notice:
  "notice (fst (pollTasks m active f False st)) =
     (if poll_notices active f = [] then notice st else Some (last (poll_notices active f)))"
proof -
  let ?acc = "fold (pollResult m active) (map (\<lambda>k. (k, f k)) (map fst active))
                \<lparr>updates = [], tasksChanged = False, nextTasks = active, notices = [], mutate_calls = 0\<rparr>"
  have n: "notices ?acc = poll_notices active f"
    by (simp add: fold_pollResult_notices poll_notices_def linked_tasks_def del: map_map)
  have "notice (fst (pollTasks m active f False st)) =
          (if notices ?acc = [] then notice st else Some (last (notices ?acc)))"
    by (simp add: pollTasks_def Let_def del: map_map)
  then show ?thesis by (simp only: n)
qed

lemma pollTasks_linkStatus:
  "linkStatus (fst (pollTasks m active f False st)) l =
     (if tasks_of_link active l = [] then linkStatus st l
      else Some (written_status (f (last (tasks_of_link active l)))))"
proof -
  let ?acc = "fold (pollResult m active) (map (\<lambda>k. (k, f k)) (map fst active))
                \<lparr>updates = [], tasksChanged = False, nextTasks = active, notices = [], mutate_calls = 0\<rparr>"
  have u: "map_of (updates ?acc) l =
             (if tasks_of_link active l = [] then None
              else Some (written_status (f (last (tasks_of_link active l)))))"
    by (simp add: fold_pollResult_updates tasks_of_link_def linked_tasks_def del: map_map
        split: list.splits)
  have "linkStatus (fst (pollTasks m active f False st)) l = (linkStatus st ++ map_of (updates ?acc)) l"
    by (simp add: pollTasks_def Let_def del: map_map)
  with u show ?thesis by (simp add: map_add_def)
qed

section \<open>The effect and its polls\<close>

lemma start_poll_simps:
  "page_state (fst (start_poll now pg)) = page_state pg"
  "effect_no (fst (start_poll now pg)) = effect_no pg"
  "interval_due (fst (start_poll now pg)) = interval_due pg"
  "in_flight (fst (start_poll now pg)) =
     in_flight pg @ [\<lparr>poll_effect = effect_no pg, poll_tasks = activeTasks (page_state pg)\<rparr>]"
  "snd (start_poll now pg) = [PollStarted now (map fst (activeTasks (page_state pg)))]"
  by (simp_all add: start_poll_def)



















lemma consistent_polling_page: "consistent polling_page"
  by (simp add: consistent_def polling_page_def two_task_page_def)






section \<open>What the poll step shows\<close>

lemma pollResult_failed:
  assumes "map_of active task_id = Some link_id" and "link_id \<noteq> []"
    and "ok result" and "data result = Some d" and "status d = ''failed''"
  shows "notices (pollResult m active (task_id, result) acc) =
           notices acc @
             [\<lparr>notice_type = NoticeError,
               notice_message =
                 (case errorMessage d of
                    Some msg \<Rightarrow> if msg = [] then ''Provisioning failed.'' else msg
                  | None \<Rightarrow> ''Provisioning failed.'')\<rparr>]"
    and "map_of (updates (pollResult m active (task_id, result) acc)) link_id = Some FAILED"
    and "task_id \<notin> fst ` set (nextTasks (pollResult m active (task_id, result) acc))"
  using assms
  by (simp_all add: pollResult_def Let_def truthy_def or_else_def mapTaskStatus_def update_conv'
      keys_delete split: option.splits)

lemma pollResult_in_progress:
  assumes "map_of active task_id = Some link_id" and "link_id \<noteq> []"
    and "ok result" and "data result = Some d"
    and "status d = ''pending'' \<or> status d = ''processing''"
  shows "notices (pollResult m active (task_id, result) acc) = notices acc"
    and "map_of (updates (pollResult m active (task_id, result) acc)) link_id = Some PROVISIONING"
    and "nextTasks (pollResult m active (task_id, result) acc) = nextTasks acc"
  using assms
  by (auto simp: pollResult_def Let_def truthy_def mapTaskStatus_def update_conv')

lemma pollResult_fetch_failed:
  assumes "map_of active task_id = Some link_id" and "link_id \<noteq> []"
    and "fetch_failed result"
  shows "notices (pollResult m active (task_id, result) acc) =
           notices acc @
             [\<lparr>notice_type = NoticeError,
               notice_message =
                 (case error result of
                    Some e \<Rightarrow> if message e = [] then ''Task status unavailable.'' else message e
                  | None \<Rightarrow> ''Task status unavailable.'')\<rparr>]"
    and "map_of (updates (pollResult m active (task_id, result) acc)) link_id = Some FAILED"
    and "task_id \<notin> fst ` set (nextTasks (pollResult m active (task_id, result) acc))"
  using assms
  by (auto simp: pollResult_def Let_def truthy_def or_else_def fetch_failed_def update_conv'
      keys_delete split: option.splits)

text \<open>
  C7, as the code has it. In the callback of a poll, for a task with a link:
  if the fetched record says "failed", an error notice with the record's \<open>errorMessage\<close>,
  or "Provisioning failed." when that is absent or empty, is passed to
  \<open>setNoticeWithTimeout\<close>, FAILED is written for the link and the task is dropped;
  if it says "pending" or "processing", no notice is passed, PROVISIONING is written and
  the task is kept;
  if the fetch itself failed (not ok, or no record), as after a timeout, an error notice
  with the message of the fetch error, or "Task status unavailable.", is passed, FAILED is
  written and the task is dropped: failures that are not terminal are surfaced too.
  After a poll that is not cancelled the page shows the last notice passed, in the order
  of \<open>Object.keys(activeTasks)\<close>, or the notice it had when none was passed; and for a
  link the status written for the last of its tasks in that order, or the status it had
  when the link has no task. A cancelled poll leaves the page as it is.
\<close>

theorem poll_surfaces_terminal_failure:
  "(map_of active task_id = Some link_id \<and> link_id \<noteq> [] \<and> ok result \<and> data result = Some d
      \<and> status d = ''failed'' \<longrightarrow>
        notices (pollResult m active (task_id, result) acc) =
          notices acc @
            [\<lparr>notice_type = NoticeError,
              notice_message =
                (case errorMessage d of
                   Some msg \<Rightarrow> if msg = [] then ''Provisioning failed.'' else msg
                 | None \<Rightarrow> ''Provisioning failed.'')\<rparr>]
        \<and> map_of (updates (pollResult m active (task_id, result) acc)) link_id = Some FAILED
        \<and> task_id \<notin> fst ` set (nextTasks (pollResult m active (task_id, result) acc))
        \<and> passed_notice result =
            Some \<lparr>notice_type = NoticeError,
                  notice_message =
                    (case errorMessage d of
                       Some msg \<Rightarrow> if msg = [] then ''Provisioning failed.'' else msg
                     | None \<Rightarrow> ''Provisioning failed.'')\<rparr>
        \<and> written_status result = FAILED)
   \<and> (map_of active task_id = Some link_id \<and> link_id \<noteq> [] \<and> ok result \<and> data result = Some d
      \<and> (status d = ''pending'' \<or> status d = ''processing'') \<longrightarrow>
        notices (pollResult m active (task_id, result) acc) = notices acc
        \<and> map_of (updates (pollResult m active (task_id, result) acc)) link_id = Some PROVISIONING
        \<and> nextTasks (pollResult m active (task_id, result) acc) = nextTasks acc
        \<and> passed_notice result = None
        \<and> written_status result = PROVISIONING)
   \<and> (map_of active task_id = Some link_id \<and> link_id \<noteq> [] \<and> fetch_failed result \<longrightarrow>
        notices (pollResult m active (task_id, result) acc) =
          notices acc @
            [\<lparr>notice_type = NoticeError,
              notice_message =
                (case error result of
                   Some e \<Rightarrow> if message e = [] then ''Task status unavailable.'' else message e
                 | None \<Rightarrow> ''Task status unavailable.'')\<rparr>]
        \<and> map_of (updates (pollResult m active (task_id, result) acc)) link_id = Some FAILED
        \<and> task_id \<notin> fst ` set (nextTasks (pollResult m active (task_id, result) acc))
        \<and> passed_notice result =
            Some \<lparr>notice_type = NoticeError,
                  notice_message =
                    (case error result of
                       Some e \<Rightarrow> if message e = [] then ''Task status unavailable.'' else message e
                     | None \<Rightarrow> ''Task status unavailable.'')\<rparr>
        \<and> written_status result = FAILED)
   \<and> notice (fst (pollTasks m active f False st)) =
       (if poll_notices active f = [] then notice st else Some (last (poll_notices active f)))
   \<and> linkStatus (fst (pollTasks m active f False st)) l =
       (if tasks_of_link active l = [] then linkStatus st l
        else Some (written_status (f (last (tasks_of_link active l)))))
   \<and> fst (pollTasks m active f True st) = st"
proof (intro conjI impI)
  assume a: "map_of active task_id = Some link_id \<and> link_id \<noteq> [] \<and> ok result \<and> data result = Some d
      \<and> status d = ''failed''"
  then have pre: "map_of active task_id = Some link_id" "link_id \<noteq> []" "ok result"
    "data result = Some d" "status d = ''failed''" by simp_all
  show "notices (pollResult m active (task_id, result) acc) =
          notices acc @
            [\<lparr>notice_type = NoticeError,
              notice_message =
                (case errorMessage d of
                   Some msg \<Rightarrow> if msg = [] then ''Provisioning failed.'' else msg
                 | None \<Rightarrow> ''Provisioning failed.'')\<rparr>]"
    by (rule pollResult_failed(1)[OF pre])
  show "map_of (updates (pollResult m active (task_id, result) acc)) link_id = Some FAILED"
    by (rule pollResult_failed(2)[OF pre])
  show "task_id \<notin> fst ` set (nextTasks (pollResult m active (task_id, result) acc))"
    by (rule pollResult_failed(3)[OF pre])
  from pre show "passed_notice result =
            Some \<lparr>notice_type = NoticeError,
                  notice_message =
                    (case errorMessage d of
                       Some msg \<Rightarrow> if msg = [] then ''Provisioning failed.'' else msg
                     | None \<Rightarrow> ''Provisioning failed.'')\<rparr>"
    by (simp add: passed_notice_def or_else_def split: option.splits)
  from pre show "written_status result = FAILED"
    by (simp add: written_status_def mapTaskStatus_def)
next
  assume a: "map_of active task_id = Some link_id \<and> link_id \<noteq> [] \<and> ok result \<and> data result = Some d
      \<and> (status d = ''pending'' \<or> status d = ''processing'')"
  then have pre: "map_of active task_id = Some link_id" "link_id \<noteq> []" "ok result"
    "data result = Some d" "status d = ''pending'' \<or> status d = ''processing''" by simp_all
  show "notices (pollResult m active (task_id, result) acc) = notices acc"
    by (rule pollResult_in_progress(1)[OF pre])
  show "map_of (updates (pollResult m active (task_id, result) acc)) link_id = Some PROVISIONING"
    by (rule pollResult_in_progress(2)[OF pre])
  show "nextTasks (pollResult m active (task_id, result) acc) = nextTasks acc"
    by (rule pollResult_in_progress(3)[OF pre])
  from pre show "passed_notice result = None"
    by (auto simp: passed_notice_def)
  from pre show "written_status result = PROVISIONING"
    by (auto simp: written_status_def mapTaskStatus_def)
next
  assume a: "map_of active task_id = Some link_id \<and> link_id \<noteq> [] \<and> fetch_failed result"
  then have pre: "map_of active task_id = Some link_id" "link_id \<noteq> []" "fetch_failed result"
    by simp_all
  show "notices (pollResult m active (task_id, result) acc) =
          notices acc @
            [\<lparr>notice_type = NoticeError,
              notice_message =
                (case error result of
                   Some e \<Rightarrow> if message e = [] then ''Task status unavailable.'' else message e
                 | None \<Rightarrow> ''Task status unavailable.'')\<rparr>]"
    by (rule pollResult_fetch_failed(1)[OF pre])
  show "map_of (updates (pollResult m active (task_id, result) acc)) link_id = Some FAILED"
    by (rule pollResult_fetch_failed(2)[OF pre])
  show "task_id \<notin> fst ` set (nextTasks (pollResult m active (task_id, result) acc))"
    by (rule pollResult_fetch_failed(3)[OF pre])
  from pre show "passed_notice result =
            Some \<lparr>notice_type = NoticeError,
                  notice_message =
                    (case error result of
                       Some e \<Rightarrow> if message e = [] then ''Task status unavailable.'' else message e
                     | None \<Rightarrow> ''Task status unavailable.'')\<rparr>"
    by (auto simp: passed_notice_def fetch_failed_def or_else_def split: option.splits)
  from pre show "written_status result = FAILED"
    by (auto simp: written_status_def fetch_failed_def split: option.splits)
next
  show "notice (fst (pollTasks m active f False st)) =
       (if poll_notices active f = [] then notice st else Some (last (poll_notices active f)))"
    by (rule pollTasks_notice)
  show "linkStatus (fst (pollTasks m active f False st)) l =
       (if tasks_of_link active l = [] then linkStatus st l
        else Some (written_status (f (last (tasks_of_link active l)))))"
    by (rule pollTasks_linkStatus)
  show "fst (pollTasks m active f True st) = st"
    by (rule pollTasks_cancelled)
qed

lemmas poll_fixtures =
  one_task_page_def two_task_page_def same_link_page_def failed_then_done_def
  failed_then_processing_def fetch_timed_out_def backend_ok_def okResult_def failResult_def
  failed_task_def completed_task_def processing_task_def task_with_id_def task_without_id_def

lemmas poll_words =
  poll_notices_def linked_tasks_def tasks_of_link_def passed_notice_def written_status_def
  fetch_failed_def truthy_def or_else_def mapTaskStatus_def

theorem poll_surfaces_terminal_failure_witness:
  "notice (fst (pollTasks False [(''t1'', ''q1'')] (\<lambda>_. backend_ok failed_task) False one_task_page)) =
     Some \<lparr>notice_type = NoticeError, notice_message = ''share expired''\<rparr>
   \<and> linkStatus (fst (pollTasks False [(''t1'', ''q1'')] (\<lambda>_. backend_ok failed_task) False
        one_task_page)) ''q1'' = Some FAILED
   \<and> notice (fst (pollTasks False [(''t1'', ''q1'')] (\<lambda>_. backend_ok processing_task) False
        one_task_page)) = None
   \<and> linkStatus (fst (pollTasks False [(''t1'', ''q1'')] (\<lambda>_. backend_ok processing_task) False
        one_task_page)) ''q1'' = Some PROVISIONING
   \<and> notices (pollResult False [(''t1'', ''q1'')] (''t1'', backend_ok failed_task)
       \<lparr>updates = [], tasksChanged = False, nextTasks = [(''t1'', ''q1'')], notices = [],
        mutate_calls = 0\<rparr>) =
       [\<lparr>notice_type = NoticeError, notice_message = ''share expired''\<rparr>]
   \<and> notices (pollResult False [(''t1'', ''q1'')] (''t1'', fetch_timed_out ''t1'')
       \<lparr>updates = [], tasksChanged = False, nextTasks = [(''t1'', ''q1'')], notices = [],
        mutate_calls = 0\<rparr>) =
       [\<lparr>notice_type = NoticeError, notice_message = ''Failed to fetch task status''\<rparr>]
   \<and> nextTasks (pollResult False [(''t1'', ''q1'')] (''t1'', backend_ok processing_task)
       \<lparr>updates = [], tasksChanged = False, nextTasks = [(''t1'', ''q1'')], notices = [],
        mutate_calls = 0\<rparr>) = [(''t1'', ''q1'')]
   \<and> notice (fst (pollTasks False [(''t1'', ''q1''), (''t2'', ''q2'')] failed_then_done False
        two_task_page)) =
       Some \<lparr>notice_type = NoticeSuccess, notice_message = ''Provisioning completed.''\<rparr>
   \<and> linkStatus (fst (pollTasks False [(''t1'', ''q1''), (''t2'', ''q2'')] failed_then_done False
        two_task_page)) ''q1'' = Some FAILED"
proof -
  let ?start = "\<lparr>updates = [], tasksChanged = False, nextTasks = [(''t1'', ''q1'')],
                  notices = [], mutate_calls = 0\<rparr>"
  note failed1 = poll_surfaces_terminal_failure[where active = "[(''t1'', ''q1'')]"
      and task_id = "''t1''" and link_id = "''q1''" and result = "backend_ok failed_task"
      and d = failed_task and m = False and acc = ?start and f = "\<lambda>_. backend_ok failed_task"
      and st = one_task_page and l = "''q1''"]
  note processing1 = poll_surfaces_terminal_failure[where active = "[(''t1'', ''q1'')]"
      and task_id = "''t1''" and link_id = "''q1''" and result = "backend_ok processing_task"
      and d = processing_task and m = False and acc = ?start
      and f = "\<lambda>_. backend_ok processing_task" and st = one_task_page and l = "''q1''"]
  note timeout1 = poll_surfaces_terminal_failure[where active = "[(''t1'', ''q1'')]"
      and task_id = "''t1''" and link_id = "''q1''" and result = "fetch_timed_out ''t1''"
      and d = failed_task and m = False and acc = ?start and f = fetch_timed_out
      and st = one_task_page and l = "''q1''"]
  note two = poll_surfaces_terminal_failure[where active = "[(''t1'', ''q1''), (''t2'', ''q2'')]"
      and task_id = "''t1''" and link_id = "''q1''" and result = "backend_ok failed_task"
      and d = failed_task and m = False and acc = ?start and f = failed_then_done
      and st = two_task_page and l = "''q1''"]
  from failed1 have a: "notice (fst (pollTasks False [(''t1'', ''q1'')] (\<lambda>_. backend_ok failed_task)
        False one_task_page)) = Some \<lparr>notice_type = NoticeError, notice_message = ''share expired''\<rparr>"
    and b: "linkStatus (fst (pollTasks False [(''t1'', ''q1'')] (\<lambda>_. backend_ok failed_task) False
        one_task_page)) ''q1'' = Some FAILED"
    and e: "notices (pollResult False [(''t1'', ''q1'')] (''t1'', backend_ok failed_task) ?start) =
       [\<lparr>notice_type = NoticeError, notice_message = ''share expired''\<rparr>]"
    by (simp_all add: poll_fixtures poll_words)
  from processing1 have c: "notice (fst (pollTasks False [(''t1'', ''q1'')]
        (\<lambda>_. backend_ok processing_task) False one_task_page)) = None"
    and d: "linkStatus (fst (pollTasks False [(''t1'', ''q1'')] (\<lambda>_. backend_ok processing_task)
        False one_task_page)) ''q1'' = Some PROVISIONING"
    and g: "nextTasks (pollResult False [(''t1'', ''q1'')] (''t1'', backend_ok processing_task) ?start)
        = [(''t1'', ''q1'')]"
    by (simp_all add: poll_fixtures poll_words)
  from timeout1 have f: "notices (pollResult False [(''t1'', ''q1'')] (''t1'', fetch_timed_out ''t1'')
        ?start) = [\<lparr>notice_type = NoticeError, notice_message = ''Failed to fetch task status''\<rparr>]"
    by (simp add: poll_fixtures poll_words)
  from two have h: "notice (fst (pollTasks False [(''t1'', ''q1''), (''t2'', ''q2'')] failed_then_done
        False two_task_page)) =
       Some \<lparr>notice_type = NoticeSuccess, notice_message = ''Provisioning completed.''\<rparr>"
    and i: "linkStatus (fst (pollTasks False [(''t1'', ''q1''), (''t2'', ''q2'')] failed_then_done
        False two_task_page)) ''q1'' = Some FAILED"
    by (simp_all add: poll_fixtures poll_words)
  from a b c d e f g h i show ?thesis by blast
qed

text \<open>
  C7 as stated fails. A timeout of the status fetch makes \<open>getTaskStatus\<close> resolve to a
  failure, and the poll shows its message as an error notice and marks the link FAILED,
  though no task reported a terminal failure. With two tasks in one poll, the first failed
  and the second completed, the page shows the success notice, not the error message. With
  two tasks on one link, the first failed and the second processing, the link is shown
  PROVISIONING.
\<close>

theorem poll_notice_not_only_terminal_counterexample:
  "fst (getTaskStatus ''http://host'' (\<lambda>_. FetchRejects ''timeout'') ''t1'' Map.empty) =
     Inr (fetch_timed_out ''t1'')
   \<and> notice (fst (pollTasks False [(''t1'', ''q1'')] fetch_timed_out False one_task_page)) =
       Some \<lparr>notice_type = NoticeError, notice_message = ''Failed to fetch task status''\<rparr>
   \<and> linkStatus (fst (pollTasks False [(''t1'', ''q1'')] fetch_timed_out False one_task_page)) ''q1''
       = Some FAILED
   \<and> notice (fst (pollTasks False [(''t1'', ''q1''), (''t2'', ''q2'')] failed_then_done False
        two_task_page)) =
       Some \<lparr>notice_type = NoticeSuccess, notice_message = ''Provisioning completed.''\<rparr>
   \<and> linkStatus (fst (pollTasks False [(''t1'', ''q1''), (''t2'', ''q1'')] failed_then_processing
        False same_link_page)) ''q1'' = Some PROVISIONING"
proof -
  have "requestJson ''http://host'' (''/tasks/'' @ ''t1'') None
          (\<lambda>_. FetchRejects ''timeout'' :: TaskRecord FetchOutcome) =
        (Inl (OtherError ''timeout''),
         [Fetch (apiBaseUrl ''http://host'' @ ''/tasks/'' @ ''t1'') 0, Sleep 500,
          Fetch (apiBaseUrl ''http://host'' @ ''/tasks/'' @ ''t1'') 1])"
    by (rule requestJson_two_failures) (simp_all add: attempt_once_def)
  then have "fst (getTaskStatus ''http://host'' (\<lambda>_. FetchRejects ''timeout'') ''t1'' Map.empty) =
     Inr (fetch_timed_out ''t1'')"
    by (simp add: getTaskStatus_def useMock_host fetch_timed_out_def)
  then show ?thesis
    by (simp add: pollTasks_def pollResult_def Let_def poll_fixtures truthy_def or_else_def
        mapTaskStatus_def)
qed


end
